theory Spec2Isabelle
  imports Main
begin

section \<open>Data model\<close>

text \<open>
  The repository is a Next.js application: a route handler \<open>POST /api/generate\<close> in two
  revisions (a single-result flow and a multi-strategy flow) and the client component
  \<open>GifGenerator\<close> in the two matching revisions. The handler talks to three external
  services (payment settlement, a language model, the Giphy search API). Their answers
  are not computed by the repository, so they are fields of a record \<open>world\<close>; the handler
  is a function of the world and the request, and returns the calls it started together
  with its response.
\<close>

subsection \<open>JSON values and JavaScript errors\<close>

datatype json =
    JNull
  | JBool bool
  | JNum int
  | JStr string
  | JArr "json list"
  | JObj "(string \<times> json) list"

text \<open>What a \<open>throw\<close> (or a rejected promise) carries.\<close>

datatype js_error =
    SyntaxError
  | TypeError
  | NetworkError
  | NoObjectGeneratedError
  | OtherError string

text \<open>
  A JavaScript value read out of parsed JSON: \<open>None\<close> is \<open>undefined\<close>.
  \<open>truthy\<close> is JavaScript's ToBoolean on such a value, \<open>typeof_string\<close> is
  \<open>typeof v === "string"\<close>.
\<close>

fun truthy :: "json option \<Rightarrow> bool" where
  "truthy None = False"
| "truthy (Some JNull) = False"
| "truthy (Some (JBool b)) = b"
| "truthy (Some (JNum n)) = (n \<noteq> 0)"
| "truthy (Some (JStr s)) = (s \<noteq> [])"
| "truthy (Some (JArr xs)) = True"
| "truthy (Some (JObj kvs)) = True"

fun typeof_string :: "json option \<Rightarrow> bool" where
  "typeof_string (Some (JStr s)) = True"
| "typeof_string v = False"

text \<open>
  \<open>const { text } = j\<close>: destructuring \<open>null\<close> throws a TypeError; an object gives the
  value of its key \<open>text\<close> (the last one when the JSON text repeated the key, as
  \<open>JSON.parse\<close> keeps the last) or \<open>undefined\<close>; a number, boolean, string or array has
  no property \<open>text\<close>.
\<close>

fun destructure_text :: "json \<Rightarrow> js_error + json option" where
  "destructure_text JNull = Inl TypeError"
| "destructure_text (JObj kvs) = Inr (map_of (rev kvs) ''text'')"
| "destructure_text j = Inr None"

subsection \<open>Request and response\<close>

text \<open>
  \<open>request.json()\<close> rejects with a SyntaxError when the body is not JSON text, so the
  body of a request is either that or the parsed value.
\<close>

datatype request_body = NotJson | Json json

record request =
  origin :: string
  x_payment :: "string option"
  body :: request_body

definition request_json :: "request \<Rightarrow> js_error + json" where
  "request_json req = (case body req of NotJson \<Rightarrow> Inl SyntaxError | Json j \<Rightarrow> Inr j)"

datatype perspective = Emotional | Literal | Sarcastic

record gif_result =
  r_url :: string
  r_keywords :: "string list"
  r_topic :: "string option"
  r_reasoning :: string
  r_title :: string
  r_perspective :: "perspective option"

datatype response_body =
    ErrorBody string
  | Forwarded json
  | SingleResult gif_result
  | GifsResult "gif_result list"

record response =
  status :: nat
  payload :: response_body
  headers :: "(string \<times> string) list"

text \<open>
  \<open>Response.json(data, { status, headers })\<close>: a response is recorded by the three
  values the handler passes. Without the second argument the status is 200 and no
  header is given.
\<close>

definition Response_json :: "response_body \<Rightarrow> nat \<Rightarrow> (string \<times> string) list \<Rightarrow> response" where
  "Response_json b s h = \<lparr>status = s, payload = b, headers = h\<rparr>"

subsection \<open>Payment settlement\<close>

record settle_args =
  resourceUrl :: string
  http_method :: string
  paymentData :: "string option"
  price :: string

record payment_result =
  pr_status :: nat
  responseBody :: json
  responseHeaders :: "(string \<times> string) list"

text \<open>\<open>new URL("/api/generate", request.url).toString()\<close> keeps the origin of the request.\<close>

definition settle_args_of :: "request \<Rightarrow> settle_args" where
  "settle_args_of req =
     \<lparr>resourceUrl = origin req @ ''/api/generate'', http_method = ''POST'',
      paymentData = x_payment req, price = ''$0.01''\<rparr>"

subsection \<open>Language-model objects and their schemas\<close>

record keyword_set =
  keywords_list :: "string list"
  topic :: "string option"
  reasoning :: string

record strategy = keyword_set +
  perspective :: perspective

record selection =
  selectedIndex :: int
  sel_reasoning :: string

text \<open>
  \<open>keywordsSchema\<close>, \<open>strategiesSchema\<close> and \<open>selectionSchema\<close>: the constraints zod checks
  beyond the types. \<open>generateObject\<close> rejects when the model's object fails its schema.
\<close>

definition keywordsSchema :: "'a keyword_set_scheme \<Rightarrow> bool" where
  "keywordsSchema k = (1 \<le> length (keywords_list k) \<and> length (keywords_list k) \<le> 3)"

definition strategiesSchema :: "strategy list \<Rightarrow> bool" where
  "strategiesSchema ss = (list_all keywordsSchema ss \<and> length ss = 3)"

definition selectionSchema :: "selection \<Rightarrow> bool" where
  "selectionSchema s = (0 \<le> selectedIndex s)"

definition generateObject :: "('a \<Rightarrow> bool) \<Rightarrow> js_error + 'a \<Rightarrow> js_error + 'a" where
  "generateObject schema answer =
     (case answer of
        Inl e \<Rightarrow> Inl e
      | Inr obj \<Rightarrow> if schema obj then Inr obj else Inl NoObjectGeneratedError)"

subsection \<open>Giphy search\<close>

record giphy_gif =
  title :: string
  alt_text :: "string option"
  images_original_url :: string

text \<open>The parsed body of a search response: \<open>data\<close> may be missing.\<close>

record giphy_payload =
  data :: "giphy_gif list option"

record fetch_response =
  ok :: bool
  json :: "js_error + giphy_payload"

text \<open>
  The search URL, by its query parameters. \<open>q\<close> is the search query before
  \<open>encodeURIComponent\<close>, that is the value the search API decodes.
\<close>

record giphy_request =
  api_key :: string
  q :: string
  limit :: nat
  rating :: string
  lang :: string

record gif_option =
  index :: nat
  opt_title :: string
  altText :: string

text \<open>The prompts, by the model they go to and the values interpolated into them.\<close>

datatype llm_call =
    KeywordsPrompt string string
  | StrategiesPrompt string string
  | SelectionPrompt string string "perspective option" "gif_option list"

datatype event =
    SettlePayment settle_args
  | GenerateObject llm_call
  | Fetch giphy_request

text \<open>
  The outside world. The per-strategy calls of the multi-strategy flow are separate
  calls, so their answers are indexed by the position of the strategy as well.
\<close>

record world =
  settlePayment :: "settle_args \<Rightarrow> js_error + payment_result"
  GIPHY_API_KEY :: "string option"
  llm_keywords :: "llm_call \<Rightarrow> js_error + keyword_set"
  llm_strategies :: "llm_call \<Rightarrow> js_error + strategy list"
  llm_selection :: "nat \<Rightarrow> llm_call \<Rightarrow> js_error + selection"
  fetch :: "nat \<Rightarrow> giphy_request \<Rightarrow> js_error + fetch_response"

section \<open>Effects\<close>

text \<open>
  A computation of the handler gives the external calls it started, in the order it
  started them, and either the error it threw or its value. \<open>call\<close> is one external
  call, \<open>pure\<close> is a step that calls nothing but may throw, \<open>await\<close> continues with
  the value of a computation or passes its error on, and \<open>return\<close> ends with a value.
\<close>

type_synonym 'a effect = "event list \<times> (js_error + 'a)"

definition call :: "event \<Rightarrow> js_error + 'a \<Rightarrow> 'a effect" where
  "call ev answer = ([ev], answer)"

definition pure :: "js_error + 'a \<Rightarrow> 'a effect" where
  "pure answer = ([], answer)"

definition return :: "'a \<Rightarrow> 'a effect" where
  "return r = ([], Inr r)"

definition await :: "'a effect \<Rightarrow> ('a \<Rightarrow> 'b effect) \<Rightarrow> 'b effect" where
  "await m f =
     (case snd m of
        Inl e \<Rightarrow> (fst m, Inl e)
      | Inr v \<Rightarrow> (fst m @ fst (f v), snd (f v)))"

text \<open>
  \<open>Promise.all\<close> over computations that were all started: every call of every one of
  them has been started, and the result is the list of values, or an error when one of
  them rejected. Which rejection comes first in time is not fixed by the code; the
  handler maps every error to the same response, and the model takes the first in list
  order.
\<close>

fun promise_all :: "(js_error + 'a) list \<Rightarrow> js_error + 'a list" where
  "promise_all [] = Inr []"
| "promise_all (p # ps) =
     (case p of
        Inl e \<Rightarrow> Inl e
      | Inr v \<Rightarrow> (case promise_all ps of Inl e \<Rightarrow> Inl e | Inr vs \<Rightarrow> Inr (v # vs)))"

definition Promise_all :: "'a effect list \<Rightarrow> 'a list effect" where
  "Promise_all ps = (concat (map fst ps), promise_all (map snd ps))"

section \<open>Steps shared by the two flows\<close>

text \<open>ToBoolean of a value of type \<open>string | null | undefined\<close>.\<close>

fun truthy_string :: "string option \<Rightarrow> bool" where
  "truthy_string None = False"
| "truthy_string (Some s) = (s \<noteq> [])"

text \<open>\<open>Array.prototype.join\<close> with a separator.\<close>

fun join :: "string \<Rightarrow> string list \<Rightarrow> string" where
  "join sep [] = []"
| "join sep [x] = x"
| "join sep (x # y # ys) = x @ sep @ join sep (y # ys)"

text \<open>
  The search query: \<open>topic ? `${keywords.join(" ")} ${topic}` : keywords.join(" ")\<close>.
\<close>

definition searchQuery :: "string list \<Rightarrow> string option \<Rightarrow> string" where
  "searchQuery kws tp =
     (if truthy_string tp then join '' '' kws @ '' '' @ the tp else join '' '' kws)"

definition search_request :: "string \<Rightarrow> string \<Rightarrow> nat \<Rightarrow> giphy_request" where
  "search_request key query n =
     \<lparr>api_key = key, q = query, limit = n, rating = ''pg-13'', lang = ''en''\<rparr>"

text \<open>\<open>gifs.map((gif, index) => ({ index, title: gif.title, altText: gif.alt_text || "" }))\<close>\<close>

definition gifOptions :: "giphy_gif list \<Rightarrow> gif_option list" where
  "gifOptions gifs =
     map (\<lambda>(i, gif). \<lparr>index = i, opt_title = title gif,
                        altText = (if truthy_string (alt_text gif) then the (alt_text gif) else [])\<rparr>)
       (enumerate 0 gifs)"

text \<open>
  \<open>gifs[i]\<close> is \<open>undefined\<close> outside the array; the elements are objects, hence truthy.
  \<open>gifs[selection.selectedIndex] || gifs[0]\<close>, whose fields are read next: reading a
  field of \<open>undefined\<close> throws a TypeError.
\<close>

definition at :: "'a list \<Rightarrow> int \<Rightarrow> 'a option" where
  "at xs i = (if 0 \<le> i \<and> i < int (length xs) then Some (xs ! nat i) else None)"

definition selectedGif :: "giphy_gif list \<Rightarrow> int \<Rightarrow> js_error + giphy_gif" where
  "selectedGif gifs i =
     (case at gifs i of
        Some g \<Rightarrow> Inr g
      | None \<Rightarrow> (case at gifs 0 of Some g \<Rightarrow> Inr g | None \<Rightarrow> Inl TypeError))"

definition unauthorised :: "payment_result \<Rightarrow> response" where
  "unauthorised paymentResult =
     Response_json (Forwarded (responseBody paymentResult)) (pr_status paymentResult)
       (responseHeaders paymentResult)"

definition error_response :: "string \<Rightarrow> nat \<Rightarrow> response" where
  "error_response msg s = Response_json (ErrorBody msg) s []"

text \<open>The \<open>catch\<close> block of both handlers.\<close>

definition catch :: "response effect \<Rightarrow> event list \<times> response" where
  "catch m =
     (fst m,
      case snd m of
        Inl e \<Rightarrow> error_response ''Failed to generate GIF recommendation'' 500
      | Inr r \<Rightarrow> r)"

text \<open>The string behind a value that passed \<open>typeof text === "string"\<close>.\<close>

fun string_of :: "json option \<Rightarrow> string" where
  "string_of (Some (JStr s)) = s"
| "string_of v = []"

section \<open>The single-result flow\<close>

text \<open>Step 4 and the response: rank the candidates and build the result.\<close>

definition single_rank :: "world \<Rightarrow> string \<Rightarrow> keyword_set \<Rightarrow> giphy_gif list \<Rightarrow> response effect" where
  "single_rank w text object gifs =
     (let prompt = SelectionPrompt ''gpt-4o-mini'' text None (gifOptions gifs) in
      await (call (GenerateObject prompt) (generateObject selectionSchema (llm_selection w 0 prompt)))
        (\<lambda>selection.
           await (pure (selectedGif gifs (selectedIndex selection)))
             (\<lambda>g. return (Response_json
                     (SingleResult \<lparr>r_url = images_original_url g, r_keywords = keywords_list object,
                                    r_topic = topic object, r_reasoning = sel_reasoning selection,
                                    r_title = title g, r_perspective = None\<rparr>) 200 []))))"

text \<open>Steps 2 and 3: build the query, check the key, search.\<close>

definition single_search :: "world \<Rightarrow> string \<Rightarrow> keyword_set \<Rightarrow> response effect" where
  "single_search w text object =
     (let query = searchQuery (keywords_list object) (topic object);
          giphyApiKey = GIPHY_API_KEY w in
      if \<not> truthy_string giphyApiKey then return (error_response ''Giphy API key not configured'' 500)
      else
        let rq = search_request (the giphyApiKey) query 10 in
        await (call (Fetch rq) (fetch w 0 rq))
          (\<lambda>giphyResponse.
             if \<not> ok giphyResponse then return (error_response ''Failed to fetch from Giphy'' 500)
             else
               await (pure (json giphyResponse))
                 (\<lambda>giphyData.
                    if data giphyData = None \<or> length (the (data giphyData)) = 0
                    then return (error_response ''No GIF found'' 404)
                    else single_rank w text object (the (data giphyData)))))"

text \<open>Step 1: the keywords.\<close>

definition single_keywords :: "world \<Rightarrow> string \<Rightarrow> response effect" where
  "single_keywords w text =
     (let prompt = KeywordsPrompt ''gpt-5-mini'' text in
      await (call (GenerateObject prompt) (generateObject keywordsSchema (llm_keywords w prompt)))
        (\<lambda>object. single_search w text object))"

text \<open>Step 0 and the validation of the body: the \<open>try\<close> block from its start.\<close>

definition single_try :: "world \<Rightarrow> request \<Rightarrow> response effect" where
  "single_try w req =
     await (call (SettlePayment (settle_args_of req)) (settlePayment w (settle_args_of req)))
       (\<lambda>paymentResult.
          if pr_status paymentResult \<noteq> 200 then return (unauthorised paymentResult)
          else
            await (pure (request_json req))
              (\<lambda>j. await (pure (destructure_text j))
                 (\<lambda>text.
                    if \<not> truthy text \<or> \<not> typeof_string text
                    then return (error_response ''Text input is required'' 400)
                    else single_keywords w (string_of text))))"

definition POST_single :: "world \<Rightarrow> request \<Rightarrow> event list \<times> response" where
  "POST_single w req = catch (single_try w req)"

section \<open>The multi-strategy flow\<close>

text \<open>Step 2, for one strategy: a response that is not ok gives no candidates.\<close>

definition search_one :: "world \<Rightarrow> string \<Rightarrow> nat \<Rightarrow> strategy \<Rightarrow> (strategy \<times> giphy_gif list) effect" where
  "search_one w giphyApiKey i strategy =
     (let rq = search_request giphyApiKey (searchQuery (keywords_list strategy) (topic strategy)) 5 in
      await (call (Fetch rq) (fetch w i rq))
        (\<lambda>resp.
           if \<not> ok resp then return (strategy, [])
           else
             await (pure (json resp))
               (\<lambda>d. return (strategy, (case data d of None \<Rightarrow> [] | Some gifs \<Rightarrow> gifs)))))"

text \<open>Step 3, for one search result: no candidates give \<open>null\<close>.\<close>

definition select_one :: "world \<Rightarrow> string \<Rightarrow> nat \<Rightarrow> strategy \<times> giphy_gif list \<Rightarrow> gif_result option effect" where
  "select_one w text i sr =
     (let strategy = fst sr; gifs = snd sr in
      if length gifs = 0 then return None
      else
        let prompt = SelectionPrompt ''gpt-4o-mini'' text (Some (perspective strategy)) (gifOptions gifs) in
        await (call (GenerateObject prompt) (generateObject selectionSchema (llm_selection w i prompt)))
          (\<lambda>selection.
             await (pure (selectedGif gifs (selectedIndex selection)))
               (\<lambda>g. return (Some \<lparr>r_url = images_original_url g, r_keywords = keywords_list strategy,
                                    r_topic = topic strategy, r_reasoning = sel_reasoning selection,
                                    r_title = title g, r_perspective = Some (perspective strategy)\<rparr>))))"

definition multi_respond :: "gif_result option list \<Rightarrow> response" where
  "multi_respond selections =
     (let validGifs = List.map_filter (\<lambda>s. s) selections in
      if length validGifs = 0 then error_response ''No GIFs found'' 404
      else Response_json (GifsResult validGifs) 200 [])"

definition multi_rank :: "world \<Rightarrow> string \<Rightarrow> (strategy \<times> giphy_gif list) list \<Rightarrow> response effect" where
  "multi_rank w text searchResults =
     await (Promise_all (map (\<lambda>(i, sr). select_one w text i sr) (enumerate 0 searchResults)))
       (\<lambda>selections. return (multi_respond selections))"

definition multi_search :: "world \<Rightarrow> string \<Rightarrow> string \<Rightarrow> strategy list \<Rightarrow> response effect" where
  "multi_search w text giphyApiKey strategies =
     await (Promise_all (map (\<lambda>(i, s). search_one w giphyApiKey i s) (enumerate 0 strategies)))
       (\<lambda>searchResults. multi_rank w text searchResults)"

text \<open>The key is checked first, then step 1: the three strategies.\<close>

definition multi_strategies :: "world \<Rightarrow> string \<Rightarrow> response effect" where
  "multi_strategies w text =
     (let giphyApiKey = GIPHY_API_KEY w in
      if \<not> truthy_string giphyApiKey then return (error_response ''Giphy API key not configured'' 500)
      else
        let prompt = StrategiesPrompt ''gpt-4o-mini'' text in
        await (call (GenerateObject prompt) (generateObject strategiesSchema (llm_strategies w prompt)))
          (\<lambda>strategies. multi_search w text (the giphyApiKey) strategies))"

definition multi_try :: "world \<Rightarrow> request \<Rightarrow> response effect" where
  "multi_try w req =
     await (call (SettlePayment (settle_args_of req)) (settlePayment w (settle_args_of req)))
       (\<lambda>paymentResult.
          if pr_status paymentResult \<noteq> 200 then return (unauthorised paymentResult)
          else
            await (pure (request_json req))
              (\<lambda>j. await (pure (destructure_text j))
                 (\<lambda>text.
                    if \<not> truthy text \<or> \<not> typeof_string text
                    then return (error_response ''Text input is required'' 400)
                    else multi_strategies w (string_of text))))"

definition POST_multi :: "world \<Rightarrow> request \<Rightarrow> event list \<times> response" where
  "POST_multi w req = catch (multi_try w req)"

section \<open>The client component\<close>

text \<open>
  \<open>String.prototype.trim\<close> removes white space at both ends. Strings are lists of
  8-bit characters here, so the white space of the model is that of Latin-1: tab, line
  feed, vertical tab, form feed, carriage return, space and the no-break space.
\<close>

definition is_white_space :: "char \<Rightarrow> bool" where
  "is_white_space c = ((of_char c :: nat) \<in> {9, 10, 11, 12, 13, 32, 160})"

definition trim :: "string \<Rightarrow> string" where
  "trim s = rev (dropWhile is_white_space (rev (dropWhile is_white_space s)))"

text \<open>What a rejected \<open>fetchWithPayment\<close> throws: an \<open>Error\<close> with its message, or another value.\<close>

datatype thrown = Error string | NotAnError

datatype client_event =
    PreventDefault
  | FetchWithPayment string string "(string \<times> string) list" json
  | InvalidateBalances

record 'r view =
  input :: string
  result :: 'r
  error :: "string option"

text \<open>
  \<open>handleSubmit\<close>, in its two revisions. \<open>isPending\<close> is the flag the hook
  \<open>useFetchWithPayment\<close> gives the component; \<open>answer\<close> is what the request started by
  \<open>fetchWithPayment\<close> settles to. The value is the calls made and the view state after
  the handler has run to its end.
\<close>

definition submit_request :: "string \<Rightarrow> client_event" where
  "submit_request inp =
     FetchWithPayment ''/api/generate'' ''POST'' [(''Content-Type'', ''application/json'')]
       (JObj [(''text'', JStr inp)])"

definition error_message :: "thrown \<Rightarrow> string" where
  "error_message err = (case err of Error m \<Rightarrow> m | NotAnError \<Rightarrow> ''Something went wrong'')"

definition handleSubmit_single ::
  "bool \<Rightarrow> thrown + gif_result \<Rightarrow> gif_result option view \<Rightarrow> client_event list \<times> gif_result option view" where
  "handleSubmit_single isPending answer v =
     (if \<not> truthy_string (Some (trim (input v))) \<or> isPending then ([PreventDefault], v)
      else
        (case answer of
           Inr d \<Rightarrow>
             ([PreventDefault, submit_request (input v), InvalidateBalances],
              v\<lparr>error := None, result := Some d\<rparr>)
         | Inl err \<Rightarrow>
             ([PreventDefault, submit_request (input v)],
              v\<lparr>error := Some (error_message err), result := None\<rparr>)))"

definition handleSubmit_multi ::
  "bool \<Rightarrow> thrown + gif_result list \<Rightarrow> gif_result list view \<Rightarrow> client_event list \<times> gif_result list view" where
  "handleSubmit_multi isPending answer v =
     (if \<not> truthy_string (Some (trim (input v))) \<or> isPending then ([PreventDefault], v)
      else
        (case answer of
           Inr gifs \<Rightarrow>
             ([PreventDefault, submit_request (input v), InvalidateBalances],
              v\<lparr>error := None, result := gifs\<rparr>)
         | Inl err \<Rightarrow>
             ([PreventDefault, submit_request (input v)],
              v\<lparr>error := Some (error_message err), result := []\<rparr>)))"

definition is_fetch :: "client_event \<Rightarrow> bool" where
  "is_fetch ev = (case ev of FetchWithPayment u m h b \<Rightarrow> True | _ \<Rightarrow> False)"

section \<open>Sample inputs\<close>

definition gif_a :: giphy_gif where
  "gif_a = \<lparr>title = ''Facepalm GIF'', alt_text = Some ''a man covers his face'',
            images_original_url = ''https://media.giphy.com/a.gif''\<rparr>"

definition gif_b :: giphy_gif where
  "gif_b = \<lparr>title = ''Slow Clap GIF'', alt_text = None,
            images_original_url = ''https://media.giphy.com/b.gif''\<rparr>"

definition strategy_emotional :: strategy where
  "strategy_emotional =
     \<lparr>keywords_list = [''relief'', ''exhausted''], topic = None,
      reasoning = ''core feeling'', perspective = Emotional\<rparr>"

definition strategy_literal :: strategy where
  "strategy_literal =
     \<lparr>keywords_list = [''coding'', ''success''], topic = Some ''programmer'',
      reasoning = ''what happens'', perspective = Literal\<rparr>"

definition strategy_sarcastic :: strategy where
  "strategy_sarcastic =
     \<lparr>keywords_list = [''slow clap'', ''finally''], topic = None,
      reasoning = ''irony'', perspective = Sarcastic\<rparr>"

definition sample_keywords :: keyword_set where
  "sample_keywords =
     \<lparr>keywords_list = [''facepalm'', ''cringe''], topic = Some ''coding'', reasoning = ''tone''\<rparr>"

text \<open>
  A world in which everything works: a request with an \<open>x-payment\<close> header settles,
  one without gets the facilitator's 402; every search finds \<open>gif_a\<close> and \<open>gif_b\<close>; the
  language model picks index 1.
\<close>

definition payment_required :: payment_result where
  "payment_required =
     \<lparr>pr_status = 402, responseBody = JObj [(''x402Version'', JNum 1)],
      responseHeaders = [(''Content-Type'', ''application/json'')]\<rparr>"

definition settled :: payment_result where
  "settled = \<lparr>pr_status = 200, responseBody = JNull, responseHeaders = []\<rparr>"

definition found :: fetch_response where
  "found = \<lparr>ok = True, json = Inr \<lparr>data = Some [gif_a, gif_b]\<rparr>\<rparr>"

definition world_ok :: world where
  "world_ok =
     \<lparr>settlePayment = (\<lambda>a. if paymentData a = None then Inr payment_required else Inr settled),
      GIPHY_API_KEY = Some ''key'',
      llm_keywords = (\<lambda>p. Inr sample_keywords),
      llm_strategies = (\<lambda>p. Inr [strategy_emotional, strategy_literal, strategy_sarcastic]),
      llm_selection = (\<lambda>i p. Inr \<lparr>selectedIndex = 1, sel_reasoning = ''fits''\<rparr>),
      fetch = (\<lambda>i rq. Inr found)\<rparr>"

definition paid_request :: request where
  "paid_request =
     \<lparr>origin = ''https://gif.example'', x_payment = Some ''proof'',
      body = Json (JObj [(''text'', JStr ''when my code finally compiles'')])\<rparr>"

definition unpaid_request_without_text :: request where
  "unpaid_request_without_text =
     \<lparr>origin = ''https://gif.example'', x_payment = None, body = Json (JObj [])\<rparr>"

definition request_not_json :: request where
  "request_not_json =
     \<lparr>origin = ''https://gif.example'', x_payment = Some ''proof'', body = NotJson\<rparr>"

definition request_numeric_text :: request where
  "request_numeric_text =
     \<lparr>origin = ''https://gif.example'', x_payment = Some ''proof'',
      body = Json (JObj [(''text'', JNum 5)])\<rparr>"

definition strategy_empty_topic :: strategy where
  "strategy_empty_topic =
     \<lparr>keywords_list = [''facepalm'', ''cringe''], topic = Some [],
      reasoning = ''tone'', perspective = Emotional\<rparr>"

definition selection_out_of_range :: selection where
  "selection_out_of_range = \<lparr>selectedIndex = 7, sel_reasoning = ''best''\<rparr>"

definition world_no_key :: world where
  "world_no_key = world_ok\<lparr>GIPHY_API_KEY := None\<rparr>"

definition world_no_key_llm_down :: world where
  "world_no_key_llm_down = world_ok\<lparr>GIPHY_API_KEY := None, llm_keywords := (\<lambda>p. Inl NetworkError)\<rparr>"

definition world_nothing_found :: world where
  "world_nothing_found =
     world_ok\<lparr>fetch := (\<lambda>i rq. Inr \<lparr>ok = True, json = Inr \<lparr>data = Some []\<rparr>\<rparr>)\<rparr>"

definition sample_text :: string where
  "sample_text = ''when my code finally compiles''"

definition not_ok :: fetch_response where
  "not_ok = \<lparr>ok = False, json = Inl SyntaxError\<rparr>"

text \<open>The same world, but the search of the second strategy is answered with an error status.\<close>

definition world_literal_fails :: world where
  "world_literal_fails = world_ok\<lparr>fetch := (\<lambda>i rq. if i = 1 then Inr not_ok else Inr found)\<rparr>"

definition view_typed :: "gif_result option view" where
  "view_typed = \<lparr>input = ''mondays'', result = None, error = None\<rparr>"

definition view_blank :: "gif_result list view" where
  "view_blank = \<lparr>input = ''  '', result = [], error = None\<rparr>"

section \<open>The start of the handler\<close>

lemmas effect_defs = call_def pure_def return_def await_def catch_def

lemma single_try_unpaid:
  "settlePayment w (settle_args_of req) = Inr pr \<Longrightarrow> pr_status pr \<noteq> 200 \<Longrightarrow>
   single_try w req = ([SettlePayment (settle_args_of req)], Inr (unauthorised pr))"
  by (simp add: single_try_def effect_defs)

lemma multi_try_unpaid:
  "settlePayment w (settle_args_of req) = Inr pr \<Longrightarrow> pr_status pr \<noteq> 200 \<Longrightarrow>
   multi_try w req = ([SettlePayment (settle_args_of req)], Inr (unauthorised pr))"
  by (simp add: multi_try_def effect_defs)

lemma single_try_not_json:
  "settlePayment w (settle_args_of req) = Inr pr \<Longrightarrow> pr_status pr = 200 \<Longrightarrow>
   body req = NotJson \<Longrightarrow>
   single_try w req = ([SettlePayment (settle_args_of req)], Inl SyntaxError)"
  by (simp add: single_try_def effect_defs request_json_def)

lemma multi_try_not_json:
  "settlePayment w (settle_args_of req) = Inr pr \<Longrightarrow> pr_status pr = 200 \<Longrightarrow>
   body req = NotJson \<Longrightarrow>
   multi_try w req = ([SettlePayment (settle_args_of req)], Inl SyntaxError)"
  by (simp add: multi_try_def effect_defs request_json_def)

lemma single_try_text:
  "settlePayment w (settle_args_of req) = Inr pr \<Longrightarrow> pr_status pr = 200 \<Longrightarrow>
   body req = Json j \<Longrightarrow> destructure_text j = Inr t \<Longrightarrow>
   single_try w req =
     (if \<not> truthy t \<or> \<not> typeof_string t
      then ([SettlePayment (settle_args_of req)], Inr (error_response ''Text input is required'' 400))
      else (SettlePayment (settle_args_of req) # fst (single_keywords w (string_of t)),
            snd (single_keywords w (string_of t))))"
  by (simp add: single_try_def effect_defs request_json_def)

lemma multi_try_text:
  "settlePayment w (settle_args_of req) = Inr pr \<Longrightarrow> pr_status pr = 200 \<Longrightarrow>
   body req = Json j \<Longrightarrow> destructure_text j = Inr t \<Longrightarrow>
   multi_try w req =
     (if \<not> truthy t \<or> \<not> typeof_string t
      then ([SettlePayment (settle_args_of req)], Inr (error_response ''Text input is required'' 400))
      else (SettlePayment (settle_args_of req) # fst (multi_strategies w (string_of t)),
            snd (multi_strategies w (string_of t))))"
  by (simp add: multi_try_def effect_defs request_json_def)

lemma settle_sample_paid: "settlePayment world_ok (settle_args_of paid_request) = Inr settled"
  by (simp add: world_ok_def settle_args_of_def paid_request_def)

subsection \<open>Payment comes first\<close>

text \<open>
  Claim C2. When the settlement returns a status other than 200, the response of the
  endpoint has exactly the status, the body and the headers of the settlement result,
  and the only external call of the request is the settlement itself: no call to the
  language model and no search. This holds in both flows.
\<close>

theorem payment_required_forwarded:
  assumes "settlePayment w (settle_args_of req) = Inr pr" and "pr_status pr \<noteq> 200"
  shows "POST_single w req =
           ([SettlePayment (settle_args_of req)],
            \<lparr>status = pr_status pr, payload = Forwarded (responseBody pr),
             headers = responseHeaders pr\<rparr>)
       \<and> POST_multi w req =
           ([SettlePayment (settle_args_of req)],
            \<lparr>status = pr_status pr, payload = Forwarded (responseBody pr),
             headers = responseHeaders pr\<rparr>)"
  using assms
  by (simp add: POST_single_def POST_multi_def single_try_unpaid multi_try_unpaid catch_def
      unauthorised_def Response_json_def)

theorem payment_required_forwarded_witness:
  "settlePayment world_ok (settle_args_of unpaid_request_without_text) = Inr payment_required
   \<and> pr_status payment_required \<noteq> 200
   \<and> POST_single world_ok unpaid_request_without_text =
       ([SettlePayment \<lparr>resourceUrl = ''https://gif.example/api/generate'', http_method = ''POST'',
                        paymentData = None, price = ''$0.01''\<rparr>],
        \<lparr>status = 402, payload = Forwarded (JObj [(''x402Version'', JNum 1)]),
         headers = [(''Content-Type'', ''application/json'')]\<rparr>)
   \<and> POST_multi world_ok unpaid_request_without_text =
       ([SettlePayment \<lparr>resourceUrl = ''https://gif.example/api/generate'', http_method = ''POST'',
                        paymentData = None, price = ''$0.01''\<rparr>],
        \<lparr>status = 402, payload = Forwarded (JObj [(''x402Version'', JNum 1)]),
         headers = [(''Content-Type'', ''application/json'')]\<rparr>)"
proof -
  have a: "settlePayment world_ok (settle_args_of unpaid_request_without_text) = Inr payment_required"
    by (simp add: world_ok_def settle_args_of_def unpaid_request_without_text_def)
  have b: "pr_status payment_required \<noteq> 200"
    by (simp add: payment_required_def)
  show ?thesis
    using a b payment_required_forwarded [OF a b]
    by (simp add: payment_required_def settle_args_of_def unpaid_request_without_text_def)
qed

text \<open>
  Claim C1, as stated: a request whose \<open>text\<close> is absent, null or not a string gets 400
  whatever its payment state. The settlement is the first step of both handlers and a
  status other than 200 ends the request there: a request without \<open>x-payment\<close> header and
  without \<open>text\<close> gets the facilitator's 402, not 400.
\<close>

theorem text_required_unpaid_counterexample:
  "body unpaid_request_without_text = Json (JObj [])
   \<and> destructure_text (JObj []) = Inr None
   \<and> x_payment unpaid_request_without_text = None
   \<and> status (snd (POST_single world_ok unpaid_request_without_text)) = 402
   \<and> status (snd (POST_multi world_ok unpaid_request_without_text)) = 402
   \<and> payload (snd (POST_single world_ok unpaid_request_without_text)) \<noteq> ErrorBody ''Text input is required''
   \<and> payload (snd (POST_multi world_ok unpaid_request_without_text)) \<noteq> ErrorBody ''Text input is required''"
proof -
  have a: "settlePayment world_ok (settle_args_of unpaid_request_without_text) = Inr payment_required"
    by (simp add: world_ok_def settle_args_of_def unpaid_request_without_text_def)
  have b: "pr_status payment_required \<noteq> 200"
    by (simp add: payment_required_def)
  show ?thesis
    by (simp add: POST_single_def POST_multi_def single_try_unpaid [OF a b] multi_try_unpaid [OF a b]
        catch_def unauthorised_def Response_json_def payment_required_def)
      (simp add: unpaid_request_without_text_def)
qed

text \<open>
  Claim C1, amended. When the settlement returns status 200 and the body is JSON other
  than \<open>null\<close>, a \<open>text\<close> that is absent, null or not a string (and also the empty string)
  gives 400 with \<open>{ error: "Text input is required" }\<close>, in both flows, and nothing is
  called after the settlement.
\<close>

theorem text_required_when_paid:
  assumes "settlePayment w (settle_args_of req) = Inr pr" and "pr_status pr = 200"
    and "body req = Json j" and "destructure_text j = Inr t"
    and "\<not> typeof_string t \<or> t = Some (JStr [])"
  shows "POST_single w req =
           ([SettlePayment (settle_args_of req)],
            \<lparr>status = 400, payload = ErrorBody ''Text input is required'', headers = []\<rparr>)
       \<and> POST_multi w req =
           ([SettlePayment (settle_args_of req)],
            \<lparr>status = 400, payload = ErrorBody ''Text input is required'', headers = []\<rparr>)"
proof -
  from assms(5) have "\<not> truthy t \<or> \<not> typeof_string t" by auto
  then show ?thesis
    using assms(1-4)
    by (simp add: POST_single_def POST_multi_def single_try_text multi_try_text catch_def
        error_response_def Response_json_def)
qed

theorem text_required_when_paid_witness:
  "settlePayment world_ok (settle_args_of request_numeric_text) = Inr settled
   \<and> pr_status settled = 200
   \<and> body request_numeric_text = Json (JObj [(''text'', JNum 5)])
   \<and> destructure_text (JObj [(''text'', JNum 5)]) = Inr (Some (JNum 5))
   \<and> \<not> typeof_string (Some (JNum 5))
   \<and> snd (POST_single world_ok request_numeric_text) =
       \<lparr>status = 400, payload = ErrorBody ''Text input is required'', headers = []\<rparr>
   \<and> snd (POST_multi world_ok request_numeric_text) =
       \<lparr>status = 400, payload = ErrorBody ''Text input is required'', headers = []\<rparr>"
proof -
  have a: "settlePayment world_ok (settle_args_of request_numeric_text) = Inr settled"
    by (simp add: world_ok_def settle_args_of_def request_numeric_text_def)
  have b: "pr_status settled = 200"
    by (simp add: settled_def)
  have c: "body request_numeric_text = Json (JObj [(''text'', JNum 5)])"
    by (simp add: request_numeric_text_def)
  have d: "destructure_text (JObj [(''text'', JNum 5)]) = Inr (Some (JNum 5))"
    by simp
  have e: "\<not> typeof_string (Some (JNum 5)) \<or> Some (JNum 5) = Some (JStr [])"
    by simp
  show ?thesis
    using a b c d text_required_when_paid [OF a b c d e] by simp
qed

subsection \<open>A body that is not JSON\<close>

text \<open>
  Claim C10. With a settled payment and a body that is not valid JSON,
  \<open>request.json()\<close> throws before the check of \<open>text\<close> is reached; the error is caught by
  the handler's only \<open>catch\<close>, and the response is 500 with
  \<open>{ error: "Failed to generate GIF recommendation" }\<close>, not 400. Both flows.
\<close>

theorem invalid_json_is_500:
  assumes "settlePayment w (settle_args_of req) = Inr pr" and "pr_status pr = 200"
    and "body req = NotJson"
  shows "snd (single_try w req) = Inl SyntaxError
       \<and> snd (multi_try w req) = Inl SyntaxError
       \<and> POST_single w req =
           ([SettlePayment (settle_args_of req)],
            \<lparr>status = 500, payload = ErrorBody ''Failed to generate GIF recommendation'',
             headers = []\<rparr>)
       \<and> POST_multi w req =
           ([SettlePayment (settle_args_of req)],
            \<lparr>status = 500, payload = ErrorBody ''Failed to generate GIF recommendation'',
             headers = []\<rparr>)"
  using assms
  by (simp add: POST_single_def POST_multi_def single_try_not_json multi_try_not_json catch_def
      error_response_def Response_json_def)

theorem invalid_json_is_500_witness:
  "settlePayment world_ok (settle_args_of request_not_json) = Inr settled
   \<and> pr_status settled = 200
   \<and> body request_not_json = NotJson
   \<and> snd (POST_single world_ok request_not_json) =
       \<lparr>status = 500, payload = ErrorBody ''Failed to generate GIF recommendation'', headers = []\<rparr>
   \<and> snd (POST_multi world_ok request_not_json) =
       \<lparr>status = 500, payload = ErrorBody ''Failed to generate GIF recommendation'', headers = []\<rparr>"
proof -
  have a: "settlePayment world_ok (settle_args_of request_not_json) = Inr settled"
    by (simp add: world_ok_def settle_args_of_def request_not_json_def)
  have b: "pr_status settled = 200"
    by (simp add: settled_def)
  have c: "body request_not_json = NotJson"
    by (simp add: request_not_json_def)
  show ?thesis
    using a b c invalid_json_is_500 [OF a b c] by simp
qed

section \<open>Ranking and query construction\<close>

lemma at_in_range: "0 \<le> i \<Longrightarrow> i < int (length xs) \<Longrightarrow> at xs i = Some (xs ! nat i)"
  by (simp add: at_def)

lemma at_out_of_range: "int (length xs) \<le> i \<Longrightarrow> at xs i = None"
  by (simp add: at_def)

lemma at_first: "xs \<noteq> [] \<Longrightarrow> at xs 0 = Some (xs ! 0)"
  by (simp add: at_def)

lemma selectedGif_chosen:
  "gifs \<noteq> [] \<Longrightarrow> 0 \<le> i \<Longrightarrow>
   selectedGif gifs i = Inr (if i < int (length gifs) then gifs ! nat i else gifs ! 0)"
  by (simp add: selectedGif_def at_in_range at_out_of_range at_first)

lemma generateObject_selection:
  "answer = Inr sel \<Longrightarrow> 0 \<le> selectedIndex sel \<Longrightarrow>
   generateObject selectionSchema answer = Inr sel"
  by (simp add: generateObject_def selectionSchema_def)

text \<open>
  Claim C4. For a non-empty candidate list, a \<open>selectedIndex\<close> at or beyond the number
  of candidates selects the candidate at index 0, and a \<open>selectedIndex\<close> within the list
  selects the candidate at that index; the result of either flow is built from the
  \<open>url\<close> and the \<open>title\<close> of that candidate.
\<close>

theorem selected_index_fallback:
  assumes "gifs \<noteq> []" and "0 \<le> selectedIndex sel"
    and "g = (if selectedIndex sel < int (length gifs) then gifs ! nat (selectedIndex sel) else gifs ! 0)"
  shows "(int (length gifs) \<le> selectedIndex sel \<longrightarrow> selectedGif gifs (selectedIndex sel) = Inr (gifs ! 0))
       \<and> (selectedIndex sel < int (length gifs) \<longrightarrow>
            selectedGif gifs (selectedIndex sel) = Inr (gifs ! nat (selectedIndex sel)))
       \<and> (llm_selection w 0 (SelectionPrompt ''gpt-4o-mini'' text None (gifOptions gifs)) = Inr sel \<longrightarrow>
            snd (single_rank w text object gifs) =
              Inr \<lparr>status = 200,
                   payload = SingleResult
                     \<lparr>r_url = images_original_url g, r_keywords = keywords_list object,
                      r_topic = topic object, r_reasoning = sel_reasoning sel,
                      r_title = title g, r_perspective = None\<rparr>,
                   headers = []\<rparr>)
       \<and> (llm_selection w i (SelectionPrompt ''gpt-4o-mini'' text (Some (perspective s)) (gifOptions gifs)) = Inr sel \<longrightarrow>
            snd (select_one w text i (s, gifs)) =
              Inr (Some \<lparr>r_url = images_original_url g, r_keywords = keywords_list s,
                         r_topic = topic s, r_reasoning = sel_reasoning sel,
                         r_title = title g, r_perspective = Some (perspective s)\<rparr>))"
proof -
  have chosen: "selectedGif gifs (selectedIndex sel) = Inr g"
    using assms by (simp add: selectedGif_chosen)
  have one: "int (length gifs) \<le> selectedIndex sel \<longrightarrow> selectedGif gifs (selectedIndex sel) = Inr (gifs ! 0)"
    using assms by (simp add: selectedGif_chosen)
  have two: "selectedIndex sel < int (length gifs) \<longrightarrow>
      selectedGif gifs (selectedIndex sel) = Inr (gifs ! nat (selectedIndex sel))"
    using assms by (simp add: selectedGif_chosen)
  have three: "llm_selection w 0 (SelectionPrompt ''gpt-4o-mini'' text None (gifOptions gifs)) = Inr sel \<longrightarrow>
      snd (single_rank w text object gifs) =
        Inr \<lparr>status = 200,
             payload = SingleResult
               \<lparr>r_url = images_original_url g, r_keywords = keywords_list object,
                r_topic = topic object, r_reasoning = sel_reasoning sel,
                r_title = title g, r_perspective = None\<rparr>,
             headers = []\<rparr>"
    using assms(2) chosen
    by (simp add: single_rank_def effect_defs generateObject_selection Response_json_def)
  have four: "llm_selection w i (SelectionPrompt ''gpt-4o-mini'' text (Some (perspective s)) (gifOptions gifs)) = Inr sel \<longrightarrow>
      snd (select_one w text i (s, gifs)) =
        Inr (Some \<lparr>r_url = images_original_url g, r_keywords = keywords_list s,
                   r_topic = topic s, r_reasoning = sel_reasoning sel,
                   r_title = title g, r_perspective = Some (perspective s)\<rparr>)"
    using assms(1,2) chosen
    by (simp add: select_one_def effect_defs generateObject_selection)
  from one two three four show ?thesis by blast
qed

theorem selected_index_fallback_witness:
  "[gif_a, gif_b] \<noteq> [] \<and> 0 \<le> selectedIndex selection_out_of_range
   \<and> int (length [gif_a, gif_b]) \<le> selectedIndex selection_out_of_range
   \<and> selectedGif [gif_a, gif_b] (selectedIndex selection_out_of_range) = Inr gif_a
   \<and> selectedGif [gif_a, gif_b] 1 = Inr gif_b"
proof -
  have a: "[gif_a, gif_b] \<noteq> []" by simp
  have b: "0 \<le> selectedIndex selection_out_of_range"
    by (simp add: selection_out_of_range_def)
  have c: "gif_a = (if selectedIndex selection_out_of_range < int (length [gif_a, gif_b])
             then [gif_a, gif_b] ! nat (selectedIndex selection_out_of_range) else [gif_a, gif_b] ! 0)"
    by (simp add: selection_out_of_range_def)
  have d: "int (length [gif_a, gif_b]) \<le> selectedIndex selection_out_of_range"
    by (simp add: selection_out_of_range_def)
  have e: "selectedGif [gif_a, gif_b] 1 = Inr gif_b"
    by (simp add: selectedGif_def at_def)
  from selected_index_fallback [OF a b c] d
  have "selectedGif [gif_a, gif_b] (selectedIndex selection_out_of_range) = Inr ([gif_a, gif_b] ! 0)"
    by blast
  then have f: "selectedGif [gif_a, gif_b] (selectedIndex selection_out_of_range) = Inr gif_a"
    by simp
  from a b d e f show ?thesis by blast
qed

lemma search_one_events:
  "fst (search_one w key i s) =
     [Fetch (search_request key (searchQuery (keywords_list s) (topic s)) 5)]"
  by (simp add: search_one_def effect_defs Let_def split: sum.split)

lemma single_search_events:
  "GIPHY_API_KEY w = Some key \<Longrightarrow> key \<noteq> [] \<Longrightarrow>
   \<exists>rest. fst (single_search w text object) =
     Fetch (search_request key (searchQuery (keywords_list object) (topic object)) 10) # rest"
  by (simp add: single_search_def effect_defs Let_def split: sum.split)

text \<open>
  Claim C5, as stated: the topic is appended after a space exactly when it is not null.
  The code tests the truthiness of the topic, and the schema \<open>z.string().nullable()\<close>
  admits the empty string: for the keywords facepalm, cringe and the topic \<open>""\<close> the query
  is \<open>"facepalm cringe"\<close>, not \<open>"facepalm cringe "\<close> with the topic appended after a space.
\<close>

theorem query_empty_topic_counterexample:
  "topic strategy_empty_topic \<noteq> None
   \<and> fst (search_one world_ok ''key'' 0 strategy_empty_topic) =
       [Fetch \<lparr>api_key = ''key'', q = ''facepalm cringe'', limit = 5, rating = ''pg-13'', lang = ''en''\<rparr>]
   \<and> ''facepalm cringe'' \<noteq>
       join '' '' (keywords_list strategy_empty_topic) @ '' '' @ the (topic strategy_empty_topic)"
  by (simp add: search_one_events strategy_empty_topic_def searchQuery_def search_request_def)

text \<open>
  Claim C5, amended. The query sent to the search API is the keywords joined by single
  spaces, with the topic appended after a single space exactly when the topic is neither
  null nor the empty string. The request of each strategy of the multi-strategy flow and
  the request of the single-result flow carry that query.
\<close>

theorem query_construction:
  assumes "query = join '' '' kws @ (case tp of None \<Rightarrow> [] | Some t \<Rightarrow> if t = [] then [] else '' '' @ t)"
  shows "searchQuery kws tp = query
       \<and> (keywords_list s = kws \<and> topic s = tp \<longrightarrow>
            fst (search_one w key i s) =
              [Fetch \<lparr>api_key = key, q = query, limit = 5, rating = ''pg-13'', lang = ''en''\<rparr>])
       \<and> (keywords_list object = kws \<and> topic object = tp \<and> GIPHY_API_KEY w = Some key \<and> key \<noteq> [] \<longrightarrow>
            (\<exists>rest. fst (single_search w text object) =
               Fetch \<lparr>api_key = key, q = query, limit = 10, rating = ''pg-13'', lang = ''en''\<rparr> # rest))"
proof -
  have q: "searchQuery kws tp = query"
    using assms by (cases tp) (simp_all add: searchQuery_def)
  have multi: "keywords_list s = kws \<and> topic s = tp \<longrightarrow>
      fst (search_one w key i s) =
        [Fetch \<lparr>api_key = key, q = query, limit = 5, rating = ''pg-13'', lang = ''en''\<rparr>]"
    using q by (auto simp: search_one_events search_request_def)
  have single: "keywords_list object = kws \<and> topic object = tp \<and> GIPHY_API_KEY w = Some key \<and> key \<noteq> [] \<longrightarrow>
      (\<exists>rest. fst (single_search w text object) =
         Fetch \<lparr>api_key = key, q = query, limit = 10, rating = ''pg-13'', lang = ''en''\<rparr> # rest)"
  proof
    assume h: "keywords_list object = kws \<and> topic object = tp \<and> GIPHY_API_KEY w = Some key \<and> key \<noteq> []"
    then obtain rest where "fst (single_search w text object) =
        Fetch (search_request key (searchQuery (keywords_list object) (topic object)) 10) # rest"
      using single_search_events [of w key "text" object] by blast
    then show "\<exists>rest. fst (single_search w text object) =
         Fetch \<lparr>api_key = key, q = query, limit = 10, rating = ''pg-13'', lang = ''en''\<rparr> # rest"
      using h q by (simp add: search_request_def)
  qed
  from q multi single show ?thesis by blast
qed

theorem query_construction_witness:
  "searchQuery [''facepalm'', ''cringe''] None = ''facepalm cringe''
   \<and> searchQuery [''facepalm'', ''cringe''] (Some ''coding'') = ''facepalm cringe coding''"
proof -
  have a: "''facepalm cringe'' = join '' '' [''facepalm'', ''cringe'']
             @ (case None of None \<Rightarrow> [] | Some t \<Rightarrow> if t = [] then [] else '' '' @ t)"
    by simp
  have b: "''facepalm cringe coding'' = join '' '' [''facepalm'', ''cringe'']
             @ (case Some ''coding'' of None \<Rightarrow> [] | Some t \<Rightarrow> if t = [] then [] else '' '' @ t)"
    by simp
  show ?thesis
    using query_construction [OF a] query_construction [OF b] by blast
qed

section \<open>After the validation of the body\<close>

lemma try_valid_text:
  "settlePayment w (settle_args_of req) = Inr pr \<Longrightarrow> pr_status pr = 200 \<Longrightarrow>
   body req = Json j \<Longrightarrow> destructure_text j = Inr (Some (JStr txt)) \<Longrightarrow> txt \<noteq> [] \<Longrightarrow>
   single_try w req =
     (SettlePayment (settle_args_of req) # fst (single_keywords w txt), snd (single_keywords w txt))
   \<and> multi_try w req =
     (SettlePayment (settle_args_of req) # fst (multi_strategies w txt), snd (multi_strategies w txt))"
  by (simp add: single_try_text multi_try_text)

lemma sample_paid_text:
  "body paid_request = Json (JObj [(''text'', JStr sample_text)])
   \<and> destructure_text (JObj [(''text'', JStr sample_text)]) = Inr (Some (JStr sample_text))
   \<and> sample_text \<noteq> []"
  by (simp add: paid_request_def sample_text_def)

lemma single_keywords_eval:
  "single_keywords w txt =
     (case generateObject keywordsSchema (llm_keywords w (KeywordsPrompt ''gpt-5-mini'' txt)) of
        Inl e \<Rightarrow> ([GenerateObject (KeywordsPrompt ''gpt-5-mini'' txt)], Inl e)
      | Inr object \<Rightarrow>
          (GenerateObject (KeywordsPrompt ''gpt-5-mini'' txt) # fst (single_search w txt object),
           snd (single_search w txt object)))"
  by (simp add: single_keywords_def effect_defs split: sum.split)

lemma single_search_no_key:
  "\<not> truthy_string (GIPHY_API_KEY w) \<Longrightarrow>
   single_search w txt object = ([], Inr (error_response ''Giphy API key not configured'' 500))"
  by (simp add: single_search_def effect_defs)

lemma multi_strategies_no_key:
  "\<not> truthy_string (GIPHY_API_KEY w) \<Longrightarrow>
   multi_strategies w txt = ([], Inr (error_response ''Giphy API key not configured'' 500))"
  by (simp add: multi_strategies_def effect_defs)

subsection \<open>A missing search key\<close>

text \<open>
  Claim C7, as stated: with the key unset, every request that passes settlement and
  validation ends in 500 \<open>Giphy API key not configured\<close> before any network call. The
  single-result flow checks the key after its keyword call to the language model: the
  call is made, and when it fails the body is the generic one.
\<close>

theorem no_key_single_flow_counterexample:
  "GIPHY_API_KEY world_no_key = None
   \<and> GIPHY_API_KEY world_no_key_llm_down = None
   \<and> fst (POST_single world_no_key paid_request) =
       [SettlePayment (settle_args_of paid_request),
        GenerateObject (KeywordsPrompt ''gpt-5-mini'' sample_text)]
   \<and> POST_single world_no_key_llm_down paid_request =
       ([SettlePayment (settle_args_of paid_request),
         GenerateObject (KeywordsPrompt ''gpt-5-mini'' sample_text)],
        \<lparr>status = 500, payload = ErrorBody ''Failed to generate GIF recommendation'', headers = []\<rparr>)"
proof -
  have a: "settlePayment world_no_key (settle_args_of paid_request) = Inr settled"
    by (simp add: world_no_key_def world_ok_def settle_args_of_def paid_request_def)
  have a': "settlePayment world_no_key_llm_down (settle_args_of paid_request) = Inr settled"
    by (simp add: world_no_key_llm_down_def world_ok_def settle_args_of_def paid_request_def)
  have b: "pr_status settled = 200"
    by (simp add: settled_def)
  have k: "GIPHY_API_KEY world_no_key = None" "GIPHY_API_KEY world_no_key_llm_down = None"
    by (simp_all add: world_no_key_def world_no_key_llm_down_def)
  have one: "fst (POST_single world_no_key paid_request) =
       [SettlePayment (settle_args_of paid_request),
        GenerateObject (KeywordsPrompt ''gpt-5-mini'' sample_text)]"
    using try_valid_text [OF a b] sample_paid_text k
    by (simp add: POST_single_def catch_def single_keywords_eval single_search_no_key
        generateObject_def keywordsSchema_def world_no_key_def world_ok_def sample_keywords_def)
  have two: "POST_single world_no_key_llm_down paid_request =
       ([SettlePayment (settle_args_of paid_request),
         GenerateObject (KeywordsPrompt ''gpt-5-mini'' sample_text)],
        \<lparr>status = 500, payload = ErrorBody ''Failed to generate GIF recommendation'', headers = []\<rparr>)"
    using try_valid_text [OF a' b] sample_paid_text
    by (simp add: POST_single_def catch_def single_keywords_eval
        generateObject_def world_no_key_llm_down_def error_response_def Response_json_def)
  from k one two show ?thesis by blast
qed

text \<open>
  Claim C7, amended. With the key unset (or empty), a request that passes settlement and
  validation ends in status 500 without any call to the search API. In the
  multi-strategy flow the body is \<open>{ error: "Giphy API key not configured" }\<close> and nothing
  is called after the settlement. In the single-result flow the keyword call to the
  language model is made first; the body is \<open>{ error: "Giphy API key not configured" }\<close>
  when that call gives an object that fits its schema, and the generic
  \<open>{ error: "Failed to generate GIF recommendation" }\<close> when it fails.
\<close>

theorem no_key_is_500:
  assumes "settlePayment w (settle_args_of req) = Inr pr" and "pr_status pr = 200"
    and "body req = Json j" and "destructure_text j = Inr (Some (JStr txt))" and "txt \<noteq> []"
    and "\<not> truthy_string (GIPHY_API_KEY w)"
  shows "POST_multi w req =
           ([SettlePayment (settle_args_of req)],
            \<lparr>status = 500, payload = ErrorBody ''Giphy API key not configured'', headers = []\<rparr>)
       \<and> fst (POST_single w req) =
           [SettlePayment (settle_args_of req), GenerateObject (KeywordsPrompt ''gpt-5-mini'' txt)]
       \<and> snd (POST_single w req) =
           (case generateObject keywordsSchema (llm_keywords w (KeywordsPrompt ''gpt-5-mini'' txt)) of
              Inl e \<Rightarrow>
                \<lparr>status = 500, payload = ErrorBody ''Failed to generate GIF recommendation'',
                 headers = []\<rparr>
            | Inr object \<Rightarrow>
                \<lparr>status = 500, payload = ErrorBody ''Giphy API key not configured'', headers = []\<rparr>)"
proof -
  note start = try_valid_text [OF assms(1-5)]
  have multi: "POST_multi w req =
           ([SettlePayment (settle_args_of req)],
            \<lparr>status = 500, payload = ErrorBody ''Giphy API key not configured'', headers = []\<rparr>)"
    using start assms(6)
    by (simp add: POST_multi_def catch_def multi_strategies_no_key error_response_def Response_json_def)
  have single: "POST_single w req =
      (case generateObject keywordsSchema (llm_keywords w (KeywordsPrompt ''gpt-5-mini'' txt)) of
         Inl e \<Rightarrow>
           ([SettlePayment (settle_args_of req), GenerateObject (KeywordsPrompt ''gpt-5-mini'' txt)],
            \<lparr>status = 500, payload = ErrorBody ''Failed to generate GIF recommendation'',
             headers = []\<rparr>)
       | Inr object \<Rightarrow>
           ([SettlePayment (settle_args_of req), GenerateObject (KeywordsPrompt ''gpt-5-mini'' txt)],
            \<lparr>status = 500, payload = ErrorBody ''Giphy API key not configured'', headers = []\<rparr>))"
    using start assms(6)
    by (simp add: POST_single_def catch_def single_keywords_eval single_search_no_key
        error_response_def Response_json_def split: sum.split)
  from multi single show ?thesis
    by (simp split: sum.split)
qed

theorem no_key_is_500_witness:
  "settlePayment world_no_key (settle_args_of paid_request) = Inr settled
   \<and> pr_status settled = 200
   \<and> \<not> truthy_string (GIPHY_API_KEY world_no_key)
   \<and> POST_multi world_no_key paid_request =
       ([SettlePayment (settle_args_of paid_request)],
        \<lparr>status = 500, payload = ErrorBody ''Giphy API key not configured'', headers = []\<rparr>)
   \<and> snd (POST_single world_no_key paid_request) =
        \<lparr>status = 500, payload = ErrorBody ''Giphy API key not configured'', headers = []\<rparr>"
proof -
  have a: "settlePayment world_no_key (settle_args_of paid_request) = Inr settled"
    by (simp add: world_no_key_def world_ok_def settle_args_of_def paid_request_def)
  have b: "pr_status settled = 200"
    by (simp add: settled_def)
  have c: "body paid_request = Json (JObj [(''text'', JStr sample_text)])"
    and d: "destructure_text (JObj [(''text'', JStr sample_text)]) = Inr (Some (JStr sample_text))"
    and e: "sample_text \<noteq> []"
    using sample_paid_text by simp_all
  have f: "\<not> truthy_string (GIPHY_API_KEY world_no_key)"
    by (simp add: world_no_key_def)
  have g: "generateObject keywordsSchema (llm_keywords world_no_key (KeywordsPrompt ''gpt-5-mini'' sample_text))
             = Inr sample_keywords"
    by (simp add: generateObject_def keywordsSchema_def world_no_key_def world_ok_def sample_keywords_def)
  show ?thesis
    using a b f g no_key_is_500 [OF a b c d e f] by simp
qed

section \<open>No candidates\<close>

lemma generateObject_keywords:
  "answer = Inr object \<Longrightarrow> keywordsSchema object \<Longrightarrow>
   generateObject keywordsSchema answer = Inr object"
  by (simp add: generateObject_def)

lemma generateObject_strategies:
  "answer = Inr ss \<Longrightarrow> strategiesSchema ss \<Longrightarrow>
   generateObject strategiesSchema answer = Inr ss"
  by (simp add: generateObject_def)

lemma single_search_not_found:
  "GIPHY_API_KEY w = Some key \<Longrightarrow> key \<noteq> [] \<Longrightarrow>
   fetch w 0 (search_request key (searchQuery (keywords_list object) (topic object)) 10) = Inr resp \<Longrightarrow>
   ok resp \<Longrightarrow> json resp = Inr d \<Longrightarrow> data d = None \<or> data d = Some [] \<Longrightarrow>
   snd (single_search w txt object) = Inr (error_response ''No GIF found'' 404)"
  by (auto simp: single_search_def effect_defs)

lemma multi_strategies_eval:
  "GIPHY_API_KEY w = Some key \<Longrightarrow> key \<noteq> [] \<Longrightarrow>
   llm_strategies w (StrategiesPrompt ''gpt-4o-mini'' txt) = Inr ss \<Longrightarrow> strategiesSchema ss \<Longrightarrow>
   multi_strategies w txt =
     (GenerateObject (StrategiesPrompt ''gpt-4o-mini'' txt) # fst (multi_search w txt key ss),
      snd (multi_search w txt key ss))"
  by (simp add: multi_strategies_def effect_defs generateObject_strategies)

lemma multi_search_three:
  "snd (search_one w key 0 s0) = Inr r0 \<Longrightarrow> snd (search_one w key 1 s1) = Inr r1 \<Longrightarrow>
   snd (search_one w key 2 s2) = Inr r2 \<Longrightarrow>
   snd (multi_search w txt key [s0, s1, s2]) = snd (multi_rank w txt [r0, r1, r2])"
  by (simp add: multi_search_def Promise_all_def await_def numeral_2_eq_2)

lemma multi_rank_three:
  "snd (select_one w txt 0 r0) = Inr e0 \<Longrightarrow> snd (select_one w txt 1 r1) = Inr e1 \<Longrightarrow>
   snd (select_one w txt 2 r2) = Inr e2 \<Longrightarrow>
   snd (multi_rank w txt [r0, r1, r2]) = Inr (multi_respond [e0, e1, e2])"
  by (simp add: multi_rank_def Promise_all_def await_def return_def numeral_2_eq_2)

lemma select_one_no_candidates: "select_one w txt i (s, []) = ([], Inr None)"
  by (simp add: select_one_def return_def)

text \<open>
  Claim C6. When no usable candidate survives the response is 404: in the single-result
  flow a search whose response has no \<open>data\<close> or an empty \<open>data\<close> gives
  \<open>{ error: "No GIF found" }\<close>; in the multi-strategy flow three strategies that all end
  with no candidates give \<open>{ error: "No GIFs found" }\<close>.
\<close>

theorem no_candidates_is_404:
  assumes "settlePayment w (settle_args_of req) = Inr pr" and "pr_status pr = 200"
    and "body req = Json j" and "destructure_text j = Inr (Some (JStr txt))" and "txt \<noteq> []"
    and "GIPHY_API_KEY w = Some key" and "key \<noteq> []"
  shows "(llm_keywords w (KeywordsPrompt ''gpt-5-mini'' txt) = Inr object \<and> keywordsSchema object
          \<and> fetch w 0 (search_request key (searchQuery (keywords_list object) (topic object)) 10) = Inr resp
          \<and> ok resp \<and> json resp = Inr d \<and> (data d = None \<or> data d = Some [])
          \<longrightarrow> snd (POST_single w req) =
                \<lparr>status = 404, payload = ErrorBody ''No GIF found'', headers = []\<rparr>)
       \<and> (llm_strategies w (StrategiesPrompt ''gpt-4o-mini'' txt) = Inr [s0, s1, s2]
          \<and> strategiesSchema [s0, s1, s2]
          \<and> snd (search_one w key 0 s0) = Inr (s0, [])
          \<and> snd (search_one w key 1 s1) = Inr (s1, [])
          \<and> snd (search_one w key 2 s2) = Inr (s2, [])
          \<longrightarrow> snd (POST_multi w req) =
                \<lparr>status = 404, payload = ErrorBody ''No GIFs found'', headers = []\<rparr>)"
proof -
  note start = try_valid_text [OF assms(1-5)]
  have single: "llm_keywords w (KeywordsPrompt ''gpt-5-mini'' txt) = Inr object \<and> keywordsSchema object
          \<and> fetch w 0 (search_request key (searchQuery (keywords_list object) (topic object)) 10) = Inr resp
          \<and> ok resp \<and> json resp = Inr d \<and> (data d = None \<or> data d = Some [])
          \<longrightarrow> snd (POST_single w req) =
                \<lparr>status = 404, payload = ErrorBody ''No GIF found'', headers = []\<rparr>"
  proof
    assume h: "llm_keywords w (KeywordsPrompt ''gpt-5-mini'' txt) = Inr object \<and> keywordsSchema object
          \<and> fetch w 0 (search_request key (searchQuery (keywords_list object) (topic object)) 10) = Inr resp
          \<and> ok resp \<and> json resp = Inr d \<and> (data d = None \<or> data d = Some [])"
    then have "snd (single_search w txt object) = Inr (error_response ''No GIF found'' 404)"
      using assms(6,7) single_search_not_found by blast
    moreover have "generateObject keywordsSchema (llm_keywords w (KeywordsPrompt ''gpt-5-mini'' txt)) = Inr object"
      using h by (simp add: generateObject_keywords)
    ultimately show "snd (POST_single w req) =
        \<lparr>status = 404, payload = ErrorBody ''No GIF found'', headers = []\<rparr>"
      using start
      by (simp add: POST_single_def catch_def single_keywords_eval error_response_def Response_json_def)
  qed
  have multi: "llm_strategies w (StrategiesPrompt ''gpt-4o-mini'' txt) = Inr [s0, s1, s2]
          \<and> strategiesSchema [s0, s1, s2]
          \<and> snd (search_one w key 0 s0) = Inr (s0, [])
          \<and> snd (search_one w key 1 s1) = Inr (s1, [])
          \<and> snd (search_one w key 2 s2) = Inr (s2, [])
          \<longrightarrow> snd (POST_multi w req) =
                \<lparr>status = 404, payload = ErrorBody ''No GIFs found'', headers = []\<rparr>"
  proof
    assume h: "llm_strategies w (StrategiesPrompt ''gpt-4o-mini'' txt) = Inr [s0, s1, s2]
          \<and> strategiesSchema [s0, s1, s2]
          \<and> snd (search_one w key 0 s0) = Inr (s0, [])
          \<and> snd (search_one w key 1 s1) = Inr (s1, [])
          \<and> snd (search_one w key 2 s2) = Inr (s2, [])"
    then have "snd (multi_search w txt key [s0, s1, s2]) = snd (multi_rank w txt [(s0, []), (s1, []), (s2, [])])"
      using multi_search_three by blast
    also have "\<dots> = Inr (multi_respond [None, None, None])"
      by (rule multi_rank_three) (simp_all add: select_one_no_candidates)
    finally have "snd (multi_search w txt key [s0, s1, s2]) = Inr (error_response ''No GIFs found'' 404)"
      by (simp add: multi_respond_def List.map_filter_simps)
    moreover have "snd (multi_strategies w txt) = snd (multi_search w txt key [s0, s1, s2])"
      using h assms(6,7) by (simp add: multi_strategies_eval)
    ultimately show "snd (POST_multi w req) =
        \<lparr>status = 404, payload = ErrorBody ''No GIFs found'', headers = []\<rparr>"
      using start
      by (simp add: POST_multi_def catch_def error_response_def Response_json_def)
  qed
  from single multi show ?thesis by blast
qed

lemma search_one_degrades:
  "fetch w i (search_request key (searchQuery (keywords_list s) (topic s)) 5) = Inr resp \<Longrightarrow>
   \<not> ok resp \<or> json resp = Inr \<lparr>data = None\<rparr> \<or> json resp = Inr \<lparr>data = Some []\<rparr> \<Longrightarrow>
   snd (search_one w key i s) = Inr (s, [])"
  by (auto simp: search_one_def effect_defs)

lemma search_one_candidates:
  "fetch w i (search_request key (searchQuery (keywords_list s) (topic s)) 5) = Inr resp \<Longrightarrow>
   ok resp \<Longrightarrow> json resp = Inr \<lparr>data = Some gifs\<rparr> \<Longrightarrow>
   snd (search_one w key i s) = Inr (s, gifs)"
  by (auto simp: search_one_def effect_defs)

theorem no_candidates_is_404_witness:
  "settlePayment world_nothing_found (settle_args_of paid_request) = Inr settled
   \<and> pr_status settled = 200
   \<and> GIPHY_API_KEY world_nothing_found = Some ''key''
   \<and> snd (POST_single world_nothing_found paid_request) =
        \<lparr>status = 404, payload = ErrorBody ''No GIF found'', headers = []\<rparr>
   \<and> snd (POST_multi world_nothing_found paid_request) =
        \<lparr>status = 404, payload = ErrorBody ''No GIFs found'', headers = []\<rparr>"
proof -
  have a: "settlePayment world_nothing_found (settle_args_of paid_request) = Inr settled"
    by (simp add: world_nothing_found_def world_ok_def settle_args_of_def paid_request_def)
  have b: "pr_status settled = 200"
    by (simp add: settled_def)
  have c: "body paid_request = Json (JObj [(''text'', JStr sample_text)])"
    and d: "destructure_text (JObj [(''text'', JStr sample_text)]) = Inr (Some (JStr sample_text))"
    and e: "sample_text \<noteq> []"
    using sample_paid_text by simp_all
  have f: "GIPHY_API_KEY world_nothing_found = Some ''key''"
    by (simp add: world_nothing_found_def world_ok_def)
  have g: "''key'' \<noteq> []" by simp
  have k: "llm_keywords world_nothing_found (KeywordsPrompt ''gpt-5-mini'' sample_text) = Inr sample_keywords"
    "keywordsSchema sample_keywords"
    by (simp_all add: world_nothing_found_def world_ok_def keywordsSchema_def sample_keywords_def)
  have resp: "fetch world_nothing_found i rq = Inr \<lparr>ok = True, json = Inr \<lparr>data = Some []\<rparr>\<rparr>" for i rq
    by (simp add: world_nothing_found_def)
  have ss: "llm_strategies world_nothing_found (StrategiesPrompt ''gpt-4o-mini'' sample_text)
              = Inr [strategy_emotional, strategy_literal, strategy_sarcastic]"
    "strategiesSchema [strategy_emotional, strategy_literal, strategy_sarcastic]"
    by (simp_all add: world_nothing_found_def world_ok_def strategiesSchema_def keywordsSchema_def
        strategy_emotional_def strategy_literal_def strategy_sarcastic_def)
  have none: "snd (search_one world_nothing_found ''key'' i s) = Inr (s, [])" for i s
    by (rule search_one_degrades [OF resp]) simp
  note inst = no_candidates_is_404 [OF a b c d e f g,
      of sample_keywords "\<lparr>ok = True, json = Inr \<lparr>data = Some []\<rparr>\<rparr>" "\<lparr>data = Some []\<rparr>"
         strategy_emotional strategy_literal strategy_sarcastic]
  have single: "snd (POST_single world_nothing_found paid_request) =
        \<lparr>status = 404, payload = ErrorBody ''No GIF found'', headers = []\<rparr>"
    using inst k resp by simp
  have multi: "snd (POST_multi world_nothing_found paid_request) =
        \<lparr>status = 404, payload = ErrorBody ''No GIFs found'', headers = []\<rparr>"
    using inst ss none by simp
  from a b f single multi show ?thesis by blast
qed

section \<open>The shape of every response\<close>

lemma promise_all_length: "promise_all ps = Inr vs \<Longrightarrow> length vs = length ps"
proof (induction ps arbitrary: vs)
  case Nil
  then show ?case by simp
next
  case (Cons p ps)
  then show ?case
    by (auto split: sum.splits)
qed

lemma map_filter_length: "length (List.map_filter f xs) \<le> length xs"
  by (simp add: List.map_filter_def)

lemma multi_respond_shape:
  "status (multi_respond sels) = 404
   \<or> (status (multi_respond sels) = 200
      \<and> (\<exists>gs. payload (multi_respond sels) = GifsResult gs \<and> 1 \<le> length gs \<and> length gs \<le> length sels))"
proof (cases "length (List.map_filter (\<lambda>s. s) sels) = 0")
  case True
  then show ?thesis
    by (simp add: multi_respond_def error_response_def Response_json_def)
next
  case False
  then have "1 \<le> length (List.map_filter (\<lambda>s. s) sels)"
    by (simp add: Suc_le_eq)
  with False show ?thesis
    using map_filter_length [of "\<lambda>s. s" sels]
    by (simp add: multi_respond_def Response_json_def Let_def)
qed

lemma multi_rank_shape:
  assumes "snd (multi_rank w txt srs) = Inr r"
  shows "status r = 404
       \<or> (status r = 200 \<and> (\<exists>gs. payload r = GifsResult gs \<and> 1 \<le> length gs \<and> length gs \<le> length srs))"
proof (cases "promise_all (map snd (map (\<lambda>(i, sr). select_one w txt i sr) (enumerate 0 srs)))")
  case (Inl e)
  with assms show ?thesis
    by (simp add: multi_rank_def Promise_all_def await_def)
next
  case (Inr sels)
  then have "length sels = length srs"
    using promise_all_length by fastforce
  moreover from Inr assms have "r = multi_respond sels"
    by (simp add: multi_rank_def Promise_all_def await_def return_def)
  ultimately show ?thesis
    using multi_respond_shape [of sels] by simp
qed

lemma multi_search_shape:
  assumes "snd (multi_search w txt key ss) = Inr r"
  shows "status r = 404
       \<or> (status r = 200 \<and> (\<exists>gs. payload r = GifsResult gs \<and> 1 \<le> length gs \<and> length gs \<le> length ss))"
proof (cases "promise_all (map snd (map (\<lambda>(i, s). search_one w key i s) (enumerate 0 ss)))")
  case (Inl e)
  with assms show ?thesis
    by (simp add: multi_search_def Promise_all_def await_def)
next
  case (Inr srs)
  then have "length srs = length ss"
    using promise_all_length by fastforce
  moreover from Inr assms have "snd (multi_rank w txt srs) = Inr r"
    by (simp add: multi_search_def Promise_all_def await_def)
  ultimately show ?thesis
    using multi_rank_shape [of w "txt" srs r] by simp
qed

lemma multi_strategies_shape:
  assumes "snd (multi_strategies w txt) = Inr r"
  shows "status r = 500 \<or> status r = 404
       \<or> (status r = 200 \<and> (\<exists>gs. payload r = GifsResult gs \<and> 1 \<le> length gs \<and> length gs \<le> 3))"
proof (cases "truthy_string (GIPHY_API_KEY w)")
  case False
  with assms show ?thesis
    by (auto simp: multi_strategies_no_key error_response_def Response_json_def)
next
  case True
  show ?thesis
  proof (cases "generateObject strategiesSchema (llm_strategies w (StrategiesPrompt ''gpt-4o-mini'' txt))")
    case (Inl e)
    with True assms show ?thesis
      by (simp add: multi_strategies_def effect_defs Let_def)
  next
    case (Inr ss)
    then have "length ss = 3"
      by (auto simp: generateObject_def strategiesSchema_def split: sum.splits if_splits)
    moreover from Inr True assms have "snd (multi_search w txt (the (GIPHY_API_KEY w)) ss) = Inr r"
      by (simp add: multi_strategies_def effect_defs Let_def)
    ultimately show ?thesis
      using multi_search_shape [of w "txt" "the (GIPHY_API_KEY w)" ss r] by simp
  qed
qed

lemma single_rank_shape:
  "snd (single_rank w txt object gifs) = Inr r \<Longrightarrow>
   status r = 200 \<and> (\<exists>g. payload r = SingleResult g)"
  by (auto simp: single_rank_def effect_defs Response_json_def Let_def split: sum.splits)

lemma single_search_shape:
  "snd (single_search w txt object) = Inr r \<Longrightarrow>
   status r = 500 \<or> status r = 404 \<or> (status r = 200 \<and> (\<exists>g. payload r = SingleResult g))"
  using single_rank_shape [of w "txt" object "the (data d)" r for d]
  by (auto simp: single_search_def effect_defs error_response_def Response_json_def Let_def
      split: sum.splits if_splits)

lemma single_keywords_shape:
  "snd (single_keywords w txt) = Inr r \<Longrightarrow>
   status r = 500 \<or> status r = 404 \<or> (status r = 200 \<and> (\<exists>g. payload r = SingleResult g))"
  using single_search_shape [of w "txt" _ r]
  by (auto simp: single_keywords_eval split: sum.splits)

lemma caught:
  "snd (catch m) =
     (case snd m of
        Inl e \<Rightarrow> \<lparr>status = 500, payload = ErrorBody ''Failed to generate GIF recommendation'',
                  headers = []\<rparr>
      | Inr r \<Rightarrow> r)"
  by (simp add: catch_def error_response_def Response_json_def split: sum.split)

text \<open>
  Claim C8. For a request with a settled payment and a \<open>text\<close> that is a non-empty
  string, the response is 200, 404 or 500. A 200 of the single-result flow carries one
  result object; a 200 of the multi-strategy flow carries between one and three
  results, never more than there are strategies. Whatever is thrown inside the handler
  is caught and gives 500 with \<open>{ error: "Failed to generate GIF recommendation" }\<close>.
\<close>

theorem response_shape:
  assumes "settlePayment w (settle_args_of req) = Inr pr" and "pr_status pr = 200"
    and "body req = Json j" and "destructure_text j = Inr (Some (JStr txt))" and "txt \<noteq> []"
  shows "status (snd (POST_single w req)) \<in> {200, 404, 500}
       \<and> (status (snd (POST_single w req)) = 200 \<longrightarrow>
            (\<exists>g. payload (snd (POST_single w req)) = SingleResult g))
       \<and> status (snd (POST_multi w req)) \<in> {200, 404, 500}
       \<and> (status (snd (POST_multi w req)) = 200 \<longrightarrow>
            (\<exists>gs. payload (snd (POST_multi w req)) = GifsResult gs \<and> 1 \<le> length gs \<and> length gs \<le> 3))
       \<and> (\<forall>e. snd (single_try w req) = Inl e \<longrightarrow>
            snd (POST_single w req) =
              \<lparr>status = 500, payload = ErrorBody ''Failed to generate GIF recommendation'',
               headers = []\<rparr>)
       \<and> (\<forall>e. snd (multi_try w req) = Inl e \<longrightarrow>
            snd (POST_multi w req) =
              \<lparr>status = 500, payload = ErrorBody ''Failed to generate GIF recommendation'',
               headers = []\<rparr>)"
proof -
  note start = try_valid_text [OF assms]
  have single: "status (snd (POST_single w req)) \<in> {200, 404, 500}
       \<and> (status (snd (POST_single w req)) = 200 \<longrightarrow>
            (\<exists>g. payload (snd (POST_single w req)) = SingleResult g))"
  proof (cases "snd (single_keywords w txt)")
    case (Inl e)
    with start show ?thesis
      by (simp add: POST_single_def caught)
  next
    case (Inr r)
    with start have "snd (POST_single w req) = r"
      by (simp add: POST_single_def caught)
    with single_keywords_shape [OF Inr] show ?thesis
      by auto
  qed
  have multi: "status (snd (POST_multi w req)) \<in> {200, 404, 500}
       \<and> (status (snd (POST_multi w req)) = 200 \<longrightarrow>
            (\<exists>gs. payload (snd (POST_multi w req)) = GifsResult gs \<and> 1 \<le> length gs \<and> length gs \<le> 3))"
  proof (cases "snd (multi_strategies w txt)")
    case (Inl e)
    with start show ?thesis
      by (simp add: POST_multi_def caught)
  next
    case (Inr r)
    with start have "snd (POST_multi w req) = r"
      by (simp add: POST_multi_def caught)
    with multi_strategies_shape [OF Inr] show ?thesis
      by auto
  qed
  have thrown: "\<forall>e. snd (single_try w req) = Inl e \<longrightarrow>
            snd (POST_single w req) =
              \<lparr>status = 500, payload = ErrorBody ''Failed to generate GIF recommendation'',
               headers = []\<rparr>"
    "\<forall>e. snd (multi_try w req) = Inl e \<longrightarrow>
            snd (POST_multi w req) =
              \<lparr>status = 500, payload = ErrorBody ''Failed to generate GIF recommendation'',
               headers = []\<rparr>"
    by (simp_all add: POST_single_def POST_multi_def caught)
  from single multi thrown show ?thesis by blast
qed

theorem response_shape_witness:
  "settlePayment world_ok (settle_args_of paid_request) = Inr settled
   \<and> pr_status settled = 200
   \<and> body paid_request = Json (JObj [(''text'', JStr sample_text)])
   \<and> destructure_text (JObj [(''text'', JStr sample_text)]) = Inr (Some (JStr sample_text))
   \<and> sample_text \<noteq> []
   \<and> status (snd (POST_single world_ok paid_request)) \<in> {200, 404, 500}
   \<and> status (snd (POST_multi world_ok paid_request)) \<in> {200, 404, 500}"
proof -
  have b: "pr_status settled = 200"
    by (simp add: settled_def)
  have c: "body paid_request = Json (JObj [(''text'', JStr sample_text)])"
    and d: "destructure_text (JObj [(''text'', JStr sample_text)]) = Inr (Some (JStr sample_text))"
    and e: "sample_text \<noteq> []"
    using sample_paid_text by simp_all
  from response_shape [OF settle_sample_paid b c d e] settle_sample_paid b c d e
  show ?thesis by blast
qed

section \<open>One strategy without candidates\<close>

lemma select_one_tagged:
  "gifs \<noteq> [] \<Longrightarrow> snd (select_one w txt i (s, gifs)) = Inr e \<Longrightarrow>
   \<exists>x. e = Some x \<and> r_perspective x = Some (perspective s) \<and> r_keywords x = keywords_list s
       \<and> r_topic x = topic s"
  by (auto simp: select_one_def effect_defs Let_def split: sum.splits)

lemma multi_rank_thrown:
  "snd (select_one w txt 0 r0) = Inl e \<or> snd (select_one w txt 1 r1) = Inl e
     \<or> snd (select_one w txt 2 r2) = Inl e \<Longrightarrow>
   \<exists>e'. snd (multi_rank w txt [r0, r1, r2]) = Inl e'"
  by (auto simp: multi_rank_def Promise_all_def await_def numeral_2_eq_2 split: sum.splits)

lemma multi_respond_two:
  "multi_respond [None, Some a, Some b] = Response_json (GifsResult [a, b]) 200 []"
  "multi_respond [Some a, None, Some b] = Response_json (GifsResult [a, b]) 200 []"
  "multi_respond [Some a, Some b, None] = Response_json (GifsResult [a, b]) 200 []"
  by (simp_all add: multi_respond_def List.map_filter_simps)

lemma exactly_one_empty:
  "length (filter (\<lambda>g. g = []) [g0, g1, g2]) = 1 \<Longrightarrow>
   (g0 = [] \<and> g1 \<noteq> [] \<and> g2 \<noteq> []) \<or> (g0 \<noteq> [] \<and> g1 = [] \<and> g2 \<noteq> [])
     \<or> (g0 \<noteq> [] \<and> g1 \<noteq> [] \<and> g2 = [])"
  by (auto split: if_splits)

lemma multi_rank_one_empty:
  assumes "length (filter (\<lambda>g. g = []) [g0, g1, g2]) = 1"
    and "snd (multi_rank w txt [(s0, g0), (s1, g1), (s2, g2)]) = Inr r"
  shows "\<exists>a b. r = Response_json (GifsResult [a, b]) 200 []
           \<and> [r_perspective a, r_perspective b] =
               map (\<lambda>(s, g). Some (perspective s)) (filter (\<lambda>(s, g). g \<noteq> []) [(s0, g0), (s1, g1), (s2, g2)])
           \<and> [r_keywords a, r_keywords b] =
               map (\<lambda>(s, g). keywords_list s) (filter (\<lambda>(s, g). g \<noteq> []) [(s0, g0), (s1, g1), (s2, g2)])"
proof -
  obtain e0 where e0: "snd (select_one w txt 0 (s0, g0)) = Inr e0"
    using assms(2) multi_rank_thrown [of w "txt" "(s0, g0)" _ "(s1, g1)" "(s2, g2)"]
    by (cases "snd (select_one w txt 0 (s0, g0))") auto
  obtain e1 where e1: "snd (select_one w txt 1 (s1, g1)) = Inr e1"
    using assms(2) multi_rank_thrown [of w "txt" "(s0, g0)" _ "(s1, g1)" "(s2, g2)"]
    by (cases "snd (select_one w txt 1 (s1, g1))") auto
  obtain e2 where e2: "snd (select_one w txt 2 (s2, g2)) = Inr e2"
    using assms(2) multi_rank_thrown [of w "txt" "(s0, g0)" _ "(s1, g1)" "(s2, g2)"]
    by (cases "snd (select_one w txt 2 (s2, g2))") auto
  have r: "r = multi_respond [e0, e1, e2]"
    using multi_rank_three [OF e0 e1 e2] assms(2) by simp
  from exactly_one_empty [OF assms(1)] show ?thesis
  proof (elim disjE conjE)
    assume g: "g0 = []" "g1 \<noteq> []" "g2 \<noteq> []"
    from e0 g(1) have "e0 = None"
      by (simp add: select_one_no_candidates)
    moreover from select_one_tagged [OF g(2) e1] obtain a where
      "e1 = Some a" "r_perspective a = Some (perspective s1)" "r_keywords a = keywords_list s1"
      by blast
    moreover from select_one_tagged [OF g(3) e2] obtain b where
      "e2 = Some b" "r_perspective b = Some (perspective s2)" "r_keywords b = keywords_list s2"
      by blast
    ultimately show ?thesis
      using r g by (auto simp: multi_respond_two)
  next
    assume g: "g0 \<noteq> []" "g1 = []" "g2 \<noteq> []"
    from e1 g(2) have "e1 = None"
      by (simp add: select_one_no_candidates)
    moreover from select_one_tagged [OF g(1) e0] obtain a where
      "e0 = Some a" "r_perspective a = Some (perspective s0)" "r_keywords a = keywords_list s0"
      by blast
    moreover from select_one_tagged [OF g(3) e2] obtain b where
      "e2 = Some b" "r_perspective b = Some (perspective s2)" "r_keywords b = keywords_list s2"
      by blast
    ultimately show ?thesis
      using r g by (auto simp: multi_respond_two)
  next
    assume g: "g0 \<noteq> []" "g1 \<noteq> []" "g2 = []"
    from e2 g(3) have "e2 = None"
      by (simp add: select_one_no_candidates)
    moreover from select_one_tagged [OF g(1) e0] obtain a where
      "e0 = Some a" "r_perspective a = Some (perspective s0)" "r_keywords a = keywords_list s0"
      by blast
    moreover from select_one_tagged [OF g(2) e1] obtain b where
      "e1 = Some b" "r_perspective b = Some (perspective s1)" "r_keywords b = keywords_list s1"
      by blast
    ultimately show ?thesis
      using r g by (auto simp: multi_respond_two)
  qed
qed

lemma multi_respond_some:
  "multi_respond sels = Response_json (GifsResult gs) 200 [] \<Longrightarrow>
   gs = List.map_filter (\<lambda>s. s) sels"
  by (simp add: multi_respond_def Let_def error_response_def Response_json_def split: if_splits)

text \<open>
  Claim C3. In the multi-strategy flow a search response that is not ok, or has no
  \<open>data\<close> or an empty \<open>data\<close>, leaves its strategy with no candidates; such a strategy is
  not ranked and is dropped from the output. When exactly one of the three strategies
  has no candidates, a 200 response holds exactly two results, in the order of their
  strategies, each with the perspective and the keywords of its own strategy; and when
  no ranking call throws, the response is 200 and holds, for each of the two other
  strategies, the result computed from that strategy alone.
\<close>

theorem one_strategy_dropped:
  assumes "settlePayment w (settle_args_of req) = Inr pr" and "pr_status pr = 200"
    and "body req = Json j" and "destructure_text j = Inr (Some (JStr txt))" and "txt \<noteq> []"
    and "GIPHY_API_KEY w = Some key" and "key \<noteq> []"
    and "llm_strategies w (StrategiesPrompt ''gpt-4o-mini'' txt) = Inr [s0, s1, s2]"
    and "strategiesSchema [s0, s1, s2]"
    and "snd (search_one w key 0 s0) = Inr (s0, g0)"
    and "snd (search_one w key 1 s1) = Inr (s1, g1)"
    and "snd (search_one w key 2 s2) = Inr (s2, g2)"
    and "length (filter (\<lambda>g. g = []) [g0, g1, g2]) = 1"
  shows "(\<forall>i s resp.
            fetch w i (search_request key (searchQuery (keywords_list s) (topic s)) 5) = Inr resp
            \<and> (\<not> ok resp \<or> json resp = Inr \<lparr>data = None\<rparr> \<or> json resp = Inr \<lparr>data = Some []\<rparr>)
            \<longrightarrow> snd (search_one w key i s) = Inr (s, []))
       \<and> (\<forall>i s. select_one w txt i (s, []) = ([], Inr None))
       \<and> (status (snd (POST_multi w req)) = 200 \<longrightarrow>
            (\<exists>a b. snd (POST_multi w req) = \<lparr>status = 200, payload = GifsResult [a, b], headers = []\<rparr>
               \<and> [r_perspective a, r_perspective b] =
                   map (\<lambda>(s, g). Some (perspective s))
                     (filter (\<lambda>(s, g). g \<noteq> []) [(s0, g0), (s1, g1), (s2, g2)])
               \<and> [r_keywords a, r_keywords b] =
                   map (\<lambda>(s, g). keywords_list s)
                     (filter (\<lambda>(s, g). g \<noteq> []) [(s0, g0), (s1, g1), (s2, g2)])))
       \<and> (\<forall>e0 e1 e2.
            snd (select_one w txt 0 (s0, g0)) = Inr e0
            \<and> snd (select_one w txt 1 (s1, g1)) = Inr e1
            \<and> snd (select_one w txt 2 (s2, g2)) = Inr e2
            \<longrightarrow> snd (POST_multi w req) =
                  \<lparr>status = 200, payload = GifsResult (List.map_filter (\<lambda>e. e) [e0, e1, e2]),
                   headers = []\<rparr>
                \<and> length (List.map_filter (\<lambda>e. e) [e0, e1, e2]) = 2)"
proof -
  let ?srs = "[(s0, g0), (s1, g1), (s2, g2)]"
  have "snd (multi_try w req) = snd (multi_strategies w txt)"
    using try_valid_text [OF assms(1-5)] by simp
  also have "\<dots> = snd (multi_search w txt key [s0, s1, s2])"
    using assms(6-9) by (simp add: multi_strategies_eval)
  also have "\<dots> = snd (multi_rank w txt ?srs)"
    using assms(10-12) by (rule multi_search_three)
  finally have chain: "snd (multi_try w req) = snd (multi_rank w txt ?srs)" .
  have degrade: "\<forall>i s resp.
            fetch w i (search_request key (searchQuery (keywords_list s) (topic s)) 5) = Inr resp
            \<and> (\<not> ok resp \<or> json resp = Inr \<lparr>data = None\<rparr> \<or> json resp = Inr \<lparr>data = Some []\<rparr>)
            \<longrightarrow> snd (search_one w key i s) = Inr (s, [])"
    using search_one_degrades by blast
  have dropped: "\<forall>i s. select_one w txt i (s, []) = ([], Inr None)"
    by (simp add: select_one_no_candidates)
  have ok: "status (snd (POST_multi w req)) = 200 \<longrightarrow>
            (\<exists>a b. snd (POST_multi w req) = \<lparr>status = 200, payload = GifsResult [a, b], headers = []\<rparr>
               \<and> [r_perspective a, r_perspective b] =
                   map (\<lambda>(s, g). Some (perspective s)) (filter (\<lambda>(s, g). g \<noteq> []) ?srs)
               \<and> [r_keywords a, r_keywords b] =
                   map (\<lambda>(s, g). keywords_list s) (filter (\<lambda>(s, g). g \<noteq> []) ?srs))"
  proof (cases "snd (multi_rank w txt ?srs)")
    case (Inl e)
    with chain show ?thesis
      by (simp add: POST_multi_def caught)
  next
    case (Inr r)
    with chain have "snd (POST_multi w req) = r"
      by (simp add: POST_multi_def caught)
    with multi_rank_one_empty [OF assms(13) Inr] show ?thesis
      by (simp add: Response_json_def)
  qed
  have ranked: "\<forall>e0 e1 e2.
            snd (select_one w txt 0 (s0, g0)) = Inr e0
            \<and> snd (select_one w txt 1 (s1, g1)) = Inr e1
            \<and> snd (select_one w txt 2 (s2, g2)) = Inr e2
            \<longrightarrow> snd (POST_multi w req) =
                  \<lparr>status = 200, payload = GifsResult (List.map_filter (\<lambda>e. e) [e0, e1, e2]),
                   headers = []\<rparr>
                \<and> length (List.map_filter (\<lambda>e. e) [e0, e1, e2]) = 2"
  proof (intro allI impI)
    fix e0 e1 e2
    assume h: "snd (select_one w txt 0 (s0, g0)) = Inr e0
            \<and> snd (select_one w txt 1 (s1, g1)) = Inr e1
            \<and> snd (select_one w txt 2 (s2, g2)) = Inr e2"
    then have r: "snd (multi_rank w txt ?srs) = Inr (multi_respond [e0, e1, e2])"
      using multi_rank_three by blast
    from multi_rank_one_empty [OF assms(13) r] obtain a b where
      ab: "multi_respond [e0, e1, e2] = Response_json (GifsResult [a, b]) 200 []"
      by blast
    then have "[a, b] = List.map_filter (\<lambda>e. e) [e0, e1, e2]"
      by (rule multi_respond_some)
    moreover from chain r have "snd (POST_multi w req) = multi_respond [e0, e1, e2]"
      by (simp add: POST_multi_def caught)
    ultimately show "snd (POST_multi w req) =
                  \<lparr>status = 200, payload = GifsResult (List.map_filter (\<lambda>e. e) [e0, e1, e2]),
                   headers = []\<rparr>
                \<and> length (List.map_filter (\<lambda>e. e) [e0, e1, e2]) = 2"
      using ab by (metis Response_json_def length_Cons list.size(3) numeral_2_eq_2)
  qed
  from degrade dropped ok ranked show ?thesis by blast
qed

theorem one_strategy_dropped_witness:
  "snd (search_one world_literal_fails ''key'' 0 strategy_emotional) = Inr (strategy_emotional, [gif_a, gif_b])
   \<and> snd (search_one world_literal_fails ''key'' 1 strategy_literal) = Inr (strategy_literal, [])
   \<and> snd (search_one world_literal_fails ''key'' 2 strategy_sarcastic) = Inr (strategy_sarcastic, [gif_a, gif_b])
   \<and> length (filter (\<lambda>g. g = []) [[gif_a, gif_b], [], [gif_a, gif_b]]) = 1
   \<and> snd (POST_multi world_literal_fails paid_request) =
       \<lparr>status = 200,
        payload = GifsResult
          [\<lparr>r_url = ''https://media.giphy.com/b.gif'', r_keywords = [''relief'', ''exhausted''],
            r_topic = None, r_reasoning = ''fits'', r_title = ''Slow Clap GIF'',
            r_perspective = Some Emotional\<rparr>,
           \<lparr>r_url = ''https://media.giphy.com/b.gif'', r_keywords = [''slow clap'', ''finally''],
            r_topic = None, r_reasoning = ''fits'', r_title = ''Slow Clap GIF'',
            r_perspective = Some Sarcastic\<rparr>],
        headers = []\<rparr>"
proof -
  let ?w = world_literal_fails
  have a: "settlePayment ?w (settle_args_of paid_request) = Inr settled"
    by (simp add: world_literal_fails_def world_ok_def settle_args_of_def paid_request_def)
  have b: "pr_status settled = 200"
    by (simp add: settled_def)
  have c: "body paid_request = Json (JObj [(''text'', JStr sample_text)])"
    and d: "destructure_text (JObj [(''text'', JStr sample_text)]) = Inr (Some (JStr sample_text))"
    and e: "sample_text \<noteq> []"
    using sample_paid_text by simp_all
  have f: "GIPHY_API_KEY ?w = Some ''key''"
    by (simp add: world_literal_fails_def world_ok_def)
  have g: "''key'' \<noteq> []" by simp
  have ss: "llm_strategies ?w (StrategiesPrompt ''gpt-4o-mini'' sample_text)
              = Inr [strategy_emotional, strategy_literal, strategy_sarcastic]"
    by (simp add: world_literal_fails_def world_ok_def)
  have sch: "strategiesSchema [strategy_emotional, strategy_literal, strategy_sarcastic]"
    by (simp add: strategiesSchema_def keywordsSchema_def
        strategy_emotional_def strategy_literal_def strategy_sarcastic_def)
  have f0: "fetch ?w 0 rq = Inr found" and f1: "fetch ?w 1 rq = Inr not_ok"
    and f2: "fetch ?w 2 rq = Inr found" for rq
    by (simp_all add: world_literal_fails_def)
  have s0: "snd (search_one ?w ''key'' 0 strategy_emotional) = Inr (strategy_emotional, [gif_a, gif_b])"
    by (rule search_one_candidates [OF f0]) (simp_all add: found_def)
  have s1: "snd (search_one ?w ''key'' 1 strategy_literal) = Inr (strategy_literal, [])"
    by (rule search_one_degrades [OF f1]) (simp add: not_ok_def)
  have s2: "snd (search_one ?w ''key'' 2 strategy_sarcastic) = Inr (strategy_sarcastic, [gif_a, gif_b])"
    by (rule search_one_candidates [OF f2]) (simp_all add: found_def)
  have one: "length (filter (\<lambda>g. g = []) [[gif_a, gif_b], [], [gif_a, gif_b]]) = 1"
    by simp
  have pick: "llm_selection ?w i p = Inr \<lparr>selectedIndex = 1, sel_reasoning = ''fits''\<rparr>" for i p
    by (simp add: world_literal_fails_def world_ok_def)
  have e0: "snd (select_one ?w sample_text 0 (strategy_emotional, [gif_a, gif_b])) =
      Inr (Some \<lparr>r_url = ''https://media.giphy.com/b.gif'', r_keywords = [''relief'', ''exhausted''],
            r_topic = None, r_reasoning = ''fits'', r_title = ''Slow Clap GIF'',
            r_perspective = Some Emotional\<rparr>)"
    by (simp add: select_one_def effect_defs pick generateObject_def selectionSchema_def
        selectedGif_def at_def gif_b_def strategy_emotional_def)
  have e1: "snd (select_one ?w sample_text 1 (strategy_literal, [])) = Inr None"
    by (simp add: select_one_no_candidates)
  have e2: "snd (select_one ?w sample_text 2 (strategy_sarcastic, [gif_a, gif_b])) =
      Inr (Some \<lparr>r_url = ''https://media.giphy.com/b.gif'', r_keywords = [''slow clap'', ''finally''],
            r_topic = None, r_reasoning = ''fits'', r_title = ''Slow Clap GIF'',
            r_perspective = Some Sarcastic\<rparr>)"
    by (simp add: select_one_def effect_defs pick generateObject_def selectionSchema_def
        selectedGif_def at_def gif_b_def strategy_sarcastic_def)
  from one_strategy_dropped [OF a b c d e f g ss sch s0 s1 s2 one] e0 e1 e2
  have "snd (POST_multi ?w paid_request) =
      \<lparr>status = 200,
       payload = GifsResult (List.map_filter (\<lambda>e. e)
         [Some \<lparr>r_url = ''https://media.giphy.com/b.gif'', r_keywords = [''relief'', ''exhausted''],
            r_topic = None, r_reasoning = ''fits'', r_title = ''Slow Clap GIF'',
            r_perspective = Some Emotional\<rparr>,
          None,
          Some \<lparr>r_url = ''https://media.giphy.com/b.gif'', r_keywords = [''slow clap'', ''finally''],
            r_topic = None, r_reasoning = ''fits'', r_title = ''Slow Clap GIF'',
            r_perspective = Some Sarcastic\<rparr>]),
       headers = []\<rparr>"
    by blast
  then have r: "snd (POST_multi ?w paid_request) =
       \<lparr>status = 200,
        payload = GifsResult
          [\<lparr>r_url = ''https://media.giphy.com/b.gif'', r_keywords = [''relief'', ''exhausted''],
            r_topic = None, r_reasoning = ''fits'', r_title = ''Slow Clap GIF'',
            r_perspective = Some Emotional\<rparr>,
           \<lparr>r_url = ''https://media.giphy.com/b.gif'', r_keywords = [''slow clap'', ''finally''],
            r_topic = None, r_reasoning = ''fits'', r_title = ''Slow Clap GIF'',
            r_perspective = Some Sarcastic\<rparr>],
        headers = []\<rparr>"
    by (simp add: List.map_filter_simps)
  from s0 s1 s2 one r show ?thesis by blast
qed

section \<open>The client: one request at a time\<close>

text \<open>
  Claim C9. A submit event that arrives while the pending flag of the payment-aware
  fetch is set, or while the trimmed input is empty, does not call \<open>fetchWithPayment\<close>
  and leaves the view state as it is; a submit event with the flag clear and a
  non-blank input calls it exactly once. Both revisions of the component.
\<close>

theorem submit_while_pending:
  shows "(isPending \<or> trim (input v) = [] \<longrightarrow>
            handleSubmit_single isPending answer v = ([PreventDefault], v)
            \<and> \<not> list_ex is_fetch (fst (handleSubmit_single isPending answer v)))
       \<and> (isPending \<or> trim (input u) = [] \<longrightarrow>
            handleSubmit_multi isPending answers u = ([PreventDefault], u)
            \<and> \<not> list_ex is_fetch (fst (handleSubmit_multi isPending answers u)))
       \<and> (\<not> isPending \<and> trim (input v) \<noteq> [] \<longrightarrow>
            length (filter is_fetch (fst (handleSubmit_single isPending answer v))) = 1)
       \<and> (\<not> isPending \<and> trim (input u) \<noteq> [] \<longrightarrow>
            length (filter is_fetch (fst (handleSubmit_multi isPending answers u))) = 1)"
proof -
  have single: "isPending \<or> trim (input v) = [] \<longrightarrow>
            handleSubmit_single isPending answer v = ([PreventDefault], v)
            \<and> \<not> list_ex is_fetch (fst (handleSubmit_single isPending answer v))"
    by (auto simp: handleSubmit_single_def is_fetch_def)
  have multi: "isPending \<or> trim (input u) = [] \<longrightarrow>
            handleSubmit_multi isPending answers u = ([PreventDefault], u)
            \<and> \<not> list_ex is_fetch (fst (handleSubmit_multi isPending answers u))"
    by (auto simp: handleSubmit_multi_def is_fetch_def)
  have single_once: "\<not> isPending \<and> trim (input v) \<noteq> [] \<longrightarrow>
            length (filter is_fetch (fst (handleSubmit_single isPending answer v))) = 1"
    by (cases answer) (simp_all add: handleSubmit_single_def is_fetch_def submit_request_def)
  have multi_once: "\<not> isPending \<and> trim (input u) \<noteq> [] \<longrightarrow>
            length (filter is_fetch (fst (handleSubmit_multi isPending answers u))) = 1"
    by (cases answers) (simp_all add: handleSubmit_multi_def is_fetch_def submit_request_def)
  from single multi single_once multi_once show ?thesis by blast
qed

theorem submit_while_pending_witness:
  "trim (input view_typed) \<noteq> []
   \<and> handleSubmit_single True (Inl NotAnError) view_typed = ([PreventDefault], view_typed)
   \<and> trim (input view_blank) = []
   \<and> handleSubmit_multi False (Inr []) view_blank = ([PreventDefault], view_blank)
   \<and> length (filter is_fetch (fst (handleSubmit_single False (Inl NotAnError) view_typed))) = 1"
proof -
  have a: "trim (input view_typed) \<noteq> []"
    by (simp add: view_typed_def trim_def is_white_space_def)
  have b: "trim (input view_blank) = []"
    by (simp add: view_blank_def trim_def is_white_space_def)
  from a b
    submit_while_pending [of True view_typed "Inl NotAnError" view_blank "Inr []"]
    submit_while_pending [of False view_typed "Inl NotAnError" view_blank "Inr []"]
  show ?thesis by blast
qed

end
